theory Spec2Isabelle
  imports Complex_Main "HOL-Library.AList"
begin

section \<open>JavaScript numbers\<close>

text \<open>
  The player computes with JavaScript numbers. They are modelled as reals: rounding and
  signed zeros are left out. A quotient is the one place where a finite computation of
  the sequencer can leave the finite numbers (the divisor is zero for a tab without
  measures), so the quotient that the progress report takes is modelled with the values
  JavaScript gives it: \<open>Infinity\<close>, \<open>-Infinity\<close> and \<open>NaN\<close>.
\<close>

datatype jsnum = Fin real | PosInf | NegInf | NaN

definition js_div :: "real \<Rightarrow> real \<Rightarrow> jsnum" where
  "js_div a b =
     (if b \<noteq> 0 then Fin (a / b)
      else if a > 0 then PosInf
      else if a < 0 then NegInf
      else NaN)"

text \<open>\<open>Math.min(x, c)\<close> and \<open>x >= c\<close> for a finite \<open>c\<close>.\<close>

definition js_min :: "jsnum \<Rightarrow> real \<Rightarrow> jsnum" where
  "js_min x c =
     (case x of Fin r \<Rightarrow> Fin (min r c) | PosInf \<Rightarrow> Fin c | NegInf \<Rightarrow> NegInf | NaN \<Rightarrow> NaN)"

definition js_ge :: "jsnum \<Rightarrow> real \<Rightarrow> bool" where
  "js_ge x c = (case x of Fin r \<Rightarrow> r \<ge> c | PosInf \<Rightarrow> True | NegInf \<Rightarrow> False | NaN \<Rightarrow> False)"

section \<open>The platform: automation of an audio parameter\<close>

text \<open>
  The Web Audio platform is not part of the repository. The engine uses it through
  gain parameters (\<open>AudioParam\<close>) and oscillator nodes. A parameter is modelled by the
  value assigned to it and its automation timeline, kept in time order; each event
  carries its target value and its time. \<open>valueAt\<close> reads the timeline as the platform
  does: a set-value event holds its value from its time on, a ramp runs from the previous
  event to its own end time.
\<close>

datatype automation =
    SetValue real real
  | LinearRamp real real
  | ExponentialRamp real real

fun targetValue :: "automation \<Rightarrow> real" where
  "targetValue (SetValue v t) = v"
| "targetValue (LinearRamp v t) = v"
| "targetValue (ExponentialRamp v t) = v"

fun eventTime :: "automation \<Rightarrow> real" where
  "eventTime (SetValue v t) = t"
| "eventTime (LinearRamp v t) = t"
| "eventTime (ExponentialRamp v t) = t"

record audio_param =
  assigned :: real
  timeline :: "automation list"

fun insertEvent :: "automation \<Rightarrow> automation list \<Rightarrow> automation list" where
  "insertEvent ev [] = [ev]"
| "insertEvent ev (x # xs) =
     (if eventTime ev < eventTime x then ev # x # xs else x # insertEvent ev xs)"

definition cancelScheduledValues :: "real \<Rightarrow> audio_param \<Rightarrow> audio_param" where
  "cancelScheduledValues t p = p\<lparr>timeline := filter (\<lambda>ev. eventTime ev < t) (timeline p)\<rparr>"

definition setValueAtTime :: "real \<Rightarrow> real \<Rightarrow> audio_param \<Rightarrow> audio_param" where
  "setValueAtTime v t p = p\<lparr>timeline := insertEvent (SetValue v t) (timeline p)\<rparr>"

definition linearRampToValueAtTime :: "real \<Rightarrow> real \<Rightarrow> audio_param \<Rightarrow> audio_param" where
  "linearRampToValueAtTime v t p = p\<lparr>timeline := insertEvent (LinearRamp v t) (timeline p)\<rparr>"

definition exponentialRampToValueAtTime :: "real \<Rightarrow> real \<Rightarrow> audio_param \<Rightarrow> audio_param" where
  "exponentialRampToValueAtTime v t p =
     p\<lparr>timeline := insertEvent (ExponentialRamp v t) (timeline p)\<rparr>"

text \<open>
  \<open>automate v0 t0 evs tm\<close>: the value at time \<open>tm\<close>, where \<open>v0\<close> was reached at
  time \<open>t0\<close> and \<open>evs\<close> are the events still ahead.
\<close>

fun automate :: "real \<Rightarrow> real \<Rightarrow> automation list \<Rightarrow> real \<Rightarrow> real" where
  "automate v0 t0 [] tm = v0"
| "automate v0 t0 (ev # evs) tm =
     (if tm < eventTime ev then
        (case ev of
           SetValue v1 t1 \<Rightarrow> v0
         | LinearRamp v1 t1 \<Rightarrow> v0 + (v1 - v0) * ((tm - t0) / (t1 - t0))
         | ExponentialRamp v1 t1 \<Rightarrow> v0 * (v1 / v0) powr ((tm - t0) / (t1 - t0)))
      else automate (targetValue ev) (eventTime ev) evs tm)"

definition valueAt :: "audio_param \<Rightarrow> real \<Rightarrow> real" where
  "valueAt p tm = automate (assigned p) 0 (timeline p) tm"

text \<open>A gain node multiplies the signal that reaches it by its gain.\<close>

definition gainOutput :: "audio_param \<Rightarrow> real \<Rightarrow> real \<Rightarrow> real" where
  "gainOutput p signal tm = signal * valueAt p tm"

section \<open>GuitarAudioEngine\<close>

datatype context_state = Suspended | Running

datatype wave = Sine | Triangle | Sawtooth

datatype filter_kind = Lowpass | Highpass

datatype error = AudioUnavailable | TypeError

text \<open>
  An operation that throws is modelled by \<open>Inl\<close> of the error and the state as it stands
  at the throw; one that returns by \<open>Inr\<close> of the new state.
\<close>

type_synonym 'a outcome = "(error \<times> 'a) + 'a"

text \<open>The state an operation leaves behind, whether it returned or threw.\<close>

definition returned :: "'a outcome \<Rightarrow> 'a" where
  "returned r = (case r of Inl x \<Rightarrow> snd x | Inr a \<Rightarrow> a)"

text \<open>
  A note of the tab. \<open>globalBeatPosition\<close> is optional in the payload: \<open>None\<close> is
  JavaScript's \<open>undefined\<close>.
\<close>

record note_event =
  stringIndex :: int
  fret :: int
  beatPosition :: real
  beatDuration :: real
  globalBeatPosition :: "real option"

record string_characteristics =
  damping :: real
  tension :: real
  pluckPos :: real
  isWound :: bool

text \<open>
  An oscillator node together with the gain node it is connected to: \<open>osc_gain\<close> is that
  node's gain, \<open>osc_output\<close> the voice whose mix that gain node feeds (\<open>None\<close> for the
  vibrato oscillator, whose gain node is connected to nothing). \<open>osc_start\<close> and
  \<open>osc_stop\<close> are the times given to \<open>start\<close> and to the latest \<open>stop\<close>.
\<close>

record oscillator =
  osc_frequency :: real
  osc_type :: wave
  osc_gain :: real
  osc_output :: "nat option"
  osc_start :: real
  osc_stop :: real

definition oscSounding :: "oscillator \<Rightarrow> real \<Rightarrow> bool" where
  "oscSounding osc tm = (osc_start osc \<le> tm \<and> tm < osc_stop osc)"

record biquad =
  filter_type :: filter_kind
  filter_frequency :: real
  filter_Q :: real

text \<open>
  The chain one note builds behind its oscillators: mix gain, two filters, the envelope
  and the stoppable gain, which is connected to the master gain.
\<close>

record voice =
  mixGain :: real
  filter1 :: biquad
  filter2 :: biquad
  envelope :: audio_param
  stoppableGain :: audio_param

text \<open>
  Keys of the \<open>activeVoices\<close> map: the string made of \<open>midiNote\<close>, a dash and
  \<open>startTime\<close> under which a voice is stored (\<open>NoteId\<close>), and the plain number
  \<open>midiNote\<close> that the timer of \<open>playNote\<close> deletes (\<open>NumberKey\<close>).
\<close>

datatype voice_key = NumberKey int | NoteId int real

text \<open>
  The engine. Oscillator nodes and voices are objects that the audio graph keeps while
  the engine's registries only refer to them, so they live in two stores indexed by
  allocation order; \<open>activeOscillators\<close> (a set in insertion order) and \<open>activeVoices\<close>
  (a map in insertion order) hold indices into the stores.
  \<open>window_AudioContext\<close> is the platform: the state of the context that
  \<open>new AudioContext()\<close> would return, \<open>None\<close> when it throws.
\<close>

record engine =
  window_AudioContext :: "context_state option"
  audioContext :: "context_state option"
  masterGain :: "audio_param option"
  activeVoices :: "(voice_key \<times> nat) list"
  activeOscillators :: "nat list"
  isInitialized :: bool
  oscillatorNodes :: "nat \<Rightarrow> oscillator"
  oscillatorCount :: nat
  voiceNodes :: "nat \<Rightarrow> voice"
  voiceCount :: nat

definition standardTuning :: "int list" where
  "standardTuning = [64, 59, 55, 50, 45, 40]"

definition stringCharacteristics :: "string_characteristics list" where
  "stringCharacteristics =
     [\<lparr>damping = 0.9995, tension = 1.0, pluckPos = 0.3, isWound = False\<rparr>,
      \<lparr>damping = 0.9996, tension = 1.0, pluckPos = 0.3, isWound = False\<rparr>,
      \<lparr>damping = 0.9997, tension = 1.0, pluckPos = 0.3, isWound = False\<rparr>,
      \<lparr>damping = 0.9998, tension = 1.0, pluckPos = 0.3, isWound = True\<rparr>,
      \<lparr>damping = 0.9998, tension = 1.0, pluckPos = 0.3, isWound = True\<rparr>,
      \<lparr>damping = 0.9999, tension = 1.0, pluckPos = 0.3, isWound = True\<rparr>]"

definition newEngine :: "context_state option \<Rightarrow> engine" where
  "newEngine w =
     \<lparr>window_AudioContext = w,
      audioContext = None,
      masterGain = None,
      activeVoices = [],
      activeOscillators = [],
      isInitialized = False,
      oscillatorNodes = (\<lambda>_. \<lparr>osc_frequency = 0, osc_type = Sine, osc_gain = 0,
                               osc_output = None, osc_start = 0, osc_stop = 0\<rparr>),
      oscillatorCount = 0,
      voiceNodes = (\<lambda>_. \<lparr>mixGain = 0,
                          filter1 = \<lparr>filter_type = Lowpass, filter_frequency = 0, filter_Q = 0\<rparr>,
                          filter2 = \<lparr>filter_type = Highpass, filter_frequency = 0, filter_Q = 0\<rparr>,
                          envelope = \<lparr>assigned = 0, timeline = []\<rparr>,
                          stoppableGain = \<lparr>assigned = 0, timeline = []\<rparr>\<rparr>),
      voiceCount = 0\<rparr>"

definition initialize :: "engine \<Rightarrow> engine outcome" where
  "initialize e =
     (if isInitialized e then Inr e
      else case window_AudioContext e of
             None \<Rightarrow> Inl (AudioUnavailable, e)
           | Some st \<Rightarrow>
               Inr (e\<lparr>audioContext := Some st,
                      masterGain := Some \<lparr>assigned = 0.3, timeline = []\<rparr>,
                      isInitialized := True\<rparr>))"

definition ensureAudioContext :: "engine \<Rightarrow> engine outcome" where
  "ensureAudioContext e =
     (case (if \<not> isInitialized e then initialize e else Inr e) of
        Inl x \<Rightarrow> Inl x
      | Inr e1 \<Rightarrow>
          (case audioContext e1 of
             None \<Rightarrow> Inl (TypeError, e1)
           | Some Suspended \<Rightarrow> Inr (e1\<lparr>audioContext := Some Running\<rparr>)
           | Some Running \<Rightarrow> Inr e1))"

definition noteEventToMidiNote :: "note_event \<Rightarrow> int" where
  "noteEventToMidiNote noteEvent =
     (if fret noteEvent < 0 \<or> stringIndex noteEvent < 0 \<or> stringIndex noteEvent \<ge> 6 then - 1
      else standardTuning ! nat (stringIndex noteEvent) + fret noteEvent)"

text \<open>\<open>Set.add\<close>: an element already present keeps its place.\<close>

definition setAdd :: "nat \<Rightarrow> nat list \<Rightarrow> nat list" where
  "setAdd x xs = (if x \<in> set xs then xs else xs @ [x])"

definition harmonics :: "real \<Rightarrow> (real \<times> real \<times> wave) list" where
  "harmonics frequency =
     [(frequency, 1.0, Triangle),
      (frequency * 2, 0.6, Sine),
      (frequency * 3, 0.3, Sine),
      (frequency * 4, 0.15, Sine),
      (frequency * 5, 0.1, Sine)]"

text \<open>
  The body of \<open>harmonics.forEach((harmonic, index) => ...)\<close>: one oscillator and its
  harmonic gain, tracked, started and given its stop time.
\<close>

definition createHarmonic ::
  "string_characteristics \<Rightarrow> nat \<Rightarrow> real \<Rightarrow> real \<Rightarrow> nat \<times> real \<times> real \<times> wave \<Rightarrow> engine \<Rightarrow> engine" where
  "createHarmonic stringChar v startTime duration ih e =
     (case ih of (index, freq, amp, type) \<Rightarrow>
        let harmonicAmp = (if isWound stringChar \<and> index > 1 then amp * 0.7 else amp);
            oscillator = oscillatorCount e
        in e\<lparr>oscillatorNodes := (oscillatorNodes e)
                 (oscillator := \<lparr>osc_frequency = freq, osc_type = type, osc_gain = harmonicAmp,
                                 osc_output = Some v, osc_start = startTime,
                                 osc_stop = startTime + duration\<rparr>),
              oscillatorCount := Suc oscillator,
              activeOscillators := setAdd oscillator (activeOscillators e)\<rparr>)"

definition guitarEnvelope :: "real \<Rightarrow> real \<Rightarrow> real \<Rightarrow> audio_param" where
  "guitarEnvelope sustainLevel startTime duration =
     exponentialRampToValueAtTime 0.001 (startTime + duration)
       (exponentialRampToValueAtTime sustainLevel (startTime + 0.2)
         (exponentialRampToValueAtTime 0.4 (startTime + 0.05)
           (linearRampToValueAtTime 1.0 (startTime + 0.002)
             (setValueAtTime 0 startTime \<lparr>assigned = 1, timeline = []\<rparr>))))"

text \<open>
  \<open>playSimpleGuitarNote\<close>. It is called by \<open>playNote\<close> only, after the context exists
  and with a string index that \<open>noteEventToMidiNote\<close> accepted; without a context the
  first \<open>createGain\<close> throws, and a string index outside the table throws at the first
  read of \<open>stringChar.isWound\<close>, before anything is tracked. The platform calls
  themselves are taken not to throw.
\<close>

definition playSimpleGuitarNote :: "int \<Rightarrow> real \<Rightarrow> real \<Rightarrow> int \<Rightarrow> engine \<Rightarrow> engine outcome" where
  "playSimpleGuitarNote midiNote startTime duration stringIdx e =
     (if audioContext e = None then Inl (TypeError, e)
      else if stringIdx < 0 \<or> stringIdx \<ge> int (length stringCharacteristics) then Inl (TypeError, e)
      else
        let frequency = 440.0 * 2 powr ((real_of_int midiNote - 69) / 12.0);
            stringChar = stringCharacteristics ! nat stringIdx;
            v = voiceCount e;
            e1 = fold (createHarmonic stringChar v startTime duration)
                   (enumerate 0 (harmonics frequency)) e;
            sustainLevel = damping stringChar * 0.25;
            vibrato = oscillatorCount e1;
            e2 = e1\<lparr>oscillatorNodes := (oscillatorNodes e1)
                       (vibrato := \<lparr>osc_frequency = 4.5, osc_type = Sine,
                                    osc_gain = frequency * 0.005, osc_output = None,
                                    osc_start = startTime + 0.1,
                                    osc_stop = startTime + duration\<rparr>),
                    oscillatorCount := Suc vibrato,
                    activeOscillators := setAdd vibrato (activeOscillators e1),
                    voiceNodes := (voiceNodes e1)
                       (v := \<lparr>mixGain = 0.3,
                              filter1 = \<lparr>filter_type = Lowpass,
                                         filter_frequency = frequency * (if isWound stringChar then 4 else 6),
                                         filter_Q = 1.5\<rparr>,
                              filter2 = \<lparr>filter_type = Highpass,
                                         filter_frequency = frequency * 0.5,
                                         filter_Q = 0.7\<rparr>,
                              envelope = guitarEnvelope sustainLevel startTime duration,
                              stoppableGain = \<lparr>assigned = 1.0, timeline = []\<rparr>\<rparr>),
                    voiceCount := Suc v\<rparr>
        in if masterGain e2 = None then Inl (TypeError, e2)
           else Inr (e2\<lparr>activeVoices :=
                          AList.update (NoteId midiNote startTime) v (activeVoices e2)\<rparr>))"

text \<open>
  \<open>playNote\<close>; \<open>now\<close> is the reading of \<open>audioContext.currentTime\<close>. The two timers it
  leaves behind run the clean-up functions below.
\<close>

definition playNote :: "real \<Rightarrow> note_event \<Rightarrow> real \<Rightarrow> real \<Rightarrow> engine \<Rightarrow> engine outcome" where
  "playNote now noteEvent startTime duration e =
     (case ensureAudioContext e of
        Inl x \<Rightarrow> Inl x
      | Inr e1 \<Rightarrow>
          let midiNote = noteEventToMidiNote noteEvent in
          if midiNote < 0 then Inr e1
          else
            let actualStartTime = now + startTime in
            playSimpleGuitarNote midiNote actualStartTime duration (stringIndex noteEvent) e1)"

definition playNoteCleanup :: "int \<Rightarrow> engine \<Rightarrow> engine" where
  "playNoteCleanup midiNote e = e\<lparr>activeVoices := AList.delete (NumberKey midiNote) (activeVoices e)\<rparr>"

definition voiceCleanup :: "int \<Rightarrow> real \<Rightarrow> engine \<Rightarrow> engine" where
  "voiceCleanup midiNote startTime e =
     e\<lparr>activeVoices := AList.delete (NoteId midiNote startTime) (activeVoices e)\<rparr>"

definition oscillatorEnded :: "nat \<Rightarrow> engine \<Rightarrow> engine" where
  "oscillatorEnded oscillator e = e\<lparr>activeOscillators := removeAll oscillator (activeOscillators e)\<rparr>"

text \<open>
  \<open>stopAllNotes\<close>; \<open>now\<close> is the reading of \<open>audioContext.currentTime\<close>. The master
  parameter's \<open>value\<close> that it re-schedules is the parameter's value at \<open>t\<close>.
\<close>

definition muteMaster :: "real \<Rightarrow> audio_param \<Rightarrow> audio_param" where
  "muteMaster t g =
     (let g1 = cancelScheduledValues t g;
          g2 = setValueAtTime (valueAt g1 t) t g1
      in linearRampToValueAtTime 0.0001 (t + 0.01) g2)"

definition zeroGain :: "real \<Rightarrow> audio_param \<Rightarrow> audio_param" where
  "zeroGain t g = setValueAtTime 0 t (cancelScheduledValues t g)"

definition stopAllNotes :: "real \<Rightarrow> engine \<Rightarrow> engine" where
  "stopAllNotes now e =
     (if audioContext e = None then e
      else
        let t = now;
            e1 = e\<lparr>masterGain := map_option (muteMaster t) (masterGain e)\<rparr>;
            e2 = e1\<lparr>oscillatorNodes :=
                       fold (\<lambda>osc nodes. nodes(osc := (nodes osc)\<lparr>osc_stop := t\<rparr>))
                         (activeOscillators e1) (oscillatorNodes e1),
                    activeOscillators := []\<rparr>
        in e2\<lparr>voiceNodes :=
                 fold (\<lambda>g nodes. nodes(g := (nodes g)\<lparr>stoppableGain := zeroGain t (stoppableGain (nodes g))\<rparr>))
                   (map snd (activeVoices e2)) (voiceNodes e2),
               activeVoices := []\<rparr>)"

definition emergencyStop :: "engine \<Rightarrow> engine" where
  "emergencyStop e = e"

definition setMasterVolume :: "real \<Rightarrow> real \<Rightarrow> engine \<Rightarrow> engine" where
  "setMasterVolume now volume e =
     (case masterGain e of
        None \<Rightarrow> e
      | Some g \<Rightarrow>
          if audioContext e = None then e
          else
            let currentTime = now in
            e\<lparr>masterGain :=
                Some (setValueAtTime (max 0 (min 1 volume)) currentTime
                        (cancelScheduledValues currentTime g))\<rparr>)"

definition resumeAudio :: "real \<Rightarrow> engine \<Rightarrow> engine" where
  "resumeAudio now e =
     setMasterVolume now 0.3
       (if audioContext e = Some Suspended then e\<lparr>audioContext := Some Running\<rparr> else e)"

text \<open>
  The level at which a voice reaches the output: its stoppable gain times the master
  gain (zero while the engine has no master gain).
\<close>

definition masterLevel :: "engine \<Rightarrow> real \<Rightarrow> real" where
  "masterLevel e tm = (case masterGain e of None \<Rightarrow> 0 | Some g \<Rightarrow> valueAt g tm)"

definition voiceLevel :: "engine \<Rightarrow> nat \<Rightarrow> real \<Rightarrow> real" where
  "voiceLevel e v tm = valueAt (stoppableGain (voiceNodes e v)) tm * masterLevel e tm"

section \<open>TabSequencer\<close>

record tab_measure =
  timeSignature :: "string option"
  measure_notes :: "note_event list"

record tab =
  title :: "string option"
  tab_tempo :: "real option"
  measures :: "tab_measure list"

text \<open>An entry of \<open>allNotes\<close>: a note with its timing and its \<open>triggered\<close> flag.\<close>

record note_data =
  nd_note :: note_event
  nd_beatPosition :: real
  nd_beatDuration :: real
  triggered :: bool

text \<open>
  The sequencer. The two callbacks are external: the model records whether one is
  registered, and what it was called with (\<open>progressReports\<close>, in call order, and the
  number of \<open>completions\<close>). \<open>intervalCount\<close> counts the timers that \<open>setInterval\<close> has
  returned (their handles are 1, 2, ...) and \<open>liveIntervals\<close> holds those not cleared.
\<close>

record sequencer =
  audioEngine :: engine
  isPlaying :: bool
  isPaused :: bool
  currentBeat :: real
  tempo :: real
  tabData :: "tab option"
  allNotes :: "note_data list"
  playbackTimer :: "nat option"
  startTime :: real
  pausedTime :: real
  totalPausedDuration :: real
  onProgressCallback :: bool
  onCompleteCallback :: bool
  isLooping :: bool
  totalDuration :: real
  loopStartMeasure :: real
  loopEndMeasure :: real
  liveIntervals :: "nat list"
  intervalCount :: nat
  progressReports :: "jsnum list"
  completions :: nat

definition newSequencer :: "engine \<Rightarrow> sequencer" where
  "newSequencer e =
     \<lparr>audioEngine = e,
      isPlaying = False,
      isPaused = False,
      currentBeat = 0,
      tempo = 120,
      tabData = None,
      allNotes = [],
      playbackTimer = None,
      startTime = 0,
      pausedTime = 0,
      totalPausedDuration = 0,
      onProgressCallback = False,
      onCompleteCallback = False,
      isLooping = False,
      totalDuration = 0,
      loopStartMeasure = 1,
      loopEndMeasure = 8,
      liveIntervals = [],
      intervalCount = 0,
      progressReports = [],
      completions = 0\<rparr>"

text \<open>\<open>if (tabData.tempo)\<close>: a tempo that is absent or zero is not stored.\<close>

definition setTabData :: "tab \<Rightarrow> sequencer \<Rightarrow> sequencer" where
  "setTabData td s =
     (let s1 = s\<lparr>tabData := Some td\<rparr> in
      case tab_tempo td of
        None \<Rightarrow> s1
      | Some t \<Rightarrow> if t \<noteq> 0 then s1\<lparr>tempo := t\<rparr> else s1)"

definition setTempo :: "real \<Rightarrow> sequencer \<Rightarrow> sequencer" where
  "setTempo bpm s = s\<lparr>tempo := max 60 (min 200 bpm)\<rparr>"

definition setProgressCallback :: "sequencer \<Rightarrow> sequencer" where
  "setProgressCallback s = s\<lparr>onProgressCallback := True\<rparr>"

definition setCompleteCallback :: "sequencer \<Rightarrow> sequencer" where
  "setCompleteCallback s = s\<lparr>onCompleteCallback := True\<rparr>"



text \<open>
  The two nested loops of \<open>prepareNotes\<close>, which push one entry per note with
  \<open>fret >= 0\<close>, measure by measure.
\<close>

definition collectNotes :: "tab_measure list \<Rightarrow> note_data list" where
  "collectNotes ms =
     [\<lparr>nd_note = n,
       nd_beatPosition = (case globalBeatPosition n of Some globalBeat \<Rightarrow> globalBeat
                          | None \<Rightarrow> beatPosition n),
       nd_beatDuration = beatDuration n,
       triggered = False\<rparr>.
      m \<leftarrow> ms, n \<leftarrow> measure_notes m, fret n \<ge> 0]"

text \<open>
  \<open>Array.prototype.sort\<close> with the comparator \<open>a.beatPosition - b.beatPosition\<close> is a
  stable sort by beat position; so is \<open>sort_key\<close>.
\<close>

definition prepareNotes :: "sequencer \<Rightarrow> sequencer outcome" where
  "prepareNotes s =
     (let s1 = s\<lparr>allNotes := []\<rparr>;
          beatDuration' = 60.0 / tempo s1
      in case tabData s1 of
           None \<Rightarrow> Inl (TypeError, s1)
         | Some td \<Rightarrow>
             let totalBeats = real (length (measures td)) * 4;
                 s2 = s1\<lparr>totalDuration := totalBeats * beatDuration'\<rparr>
             in Inr (s2\<lparr>allNotes := sort_key nd_beatPosition (collectNotes (measures td))\<rparr>))"

text \<open>
  \<open>startRealtimePlayback\<close> starts the interval timer whose callback is \<open>tick\<close> below.
\<close>

definition startRealtimePlayback :: "sequencer \<Rightarrow> sequencer" where
  "startRealtimePlayback s =
     s\<lparr>playbackTimer := Some (Suc (intervalCount s)),
       liveIntervals := liveIntervals s @ [Suc (intervalCount s)],
       intervalCount := Suc (intervalCount s)\<rparr>"

definition clearPlaybackTimer :: "sequencer \<Rightarrow> sequencer" where
  "clearPlaybackTimer s =
     (case playbackTimer s of
        None \<Rightarrow> s
      | Some h \<Rightarrow> s\<lparr>liveIntervals := removeAll h (liveIntervals s), playbackTimer := None\<rparr>)"

definition startFreshPlayback :: "real \<Rightarrow> sequencer \<Rightarrow> sequencer outcome" where
  "startFreshPlayback now s =
     (let s1 = s\<lparr>isPlaying := True, isPaused := False, currentBeat := 0\<rparr> in
      if audioContext (audioEngine s1) = None then Inl (TypeError, s1)
      else
        let s2 = s1\<lparr>startTime := now, totalPausedDuration := 0\<rparr> in
        case prepareNotes s2 of
          Inl x \<Rightarrow> Inl x
        | Inr s3 \<Rightarrow> Inr (startRealtimePlayback s3))"

definition resume :: "real \<Rightarrow> sequencer \<Rightarrow> sequencer outcome" where
  "resume now s =
     (let s1 = s\<lparr>isPlaying := True, isPaused := False\<rparr> in
      if audioContext (audioEngine s1) = None then Inl (TypeError, s1)
      else
        let pauseDuration = now - pausedTime s1;
            s2 = s1\<lparr>totalPausedDuration := totalPausedDuration s1 + pauseDuration\<rparr>
        in Inr (startRealtimePlayback s2))"

definition reportProgress :: "jsnum \<Rightarrow> sequencer \<Rightarrow> sequencer" where
  "reportProgress progress s =
     (if onProgressCallback s then s\<lparr>progressReports := progressReports s @ [progress]\<rparr> else s)"

definition stop :: "real \<Rightarrow> sequencer \<Rightarrow> sequencer" where
  "stop now s =
     (let s1 = s\<lparr>isPlaying := False, isPaused := False, currentBeat := 0,
                 totalPausedDuration := 0\<rparr>;
          s2 = clearPlaybackTimer s1;
          s3 = s2\<lparr>audioEngine := stopAllNotes now (audioEngine s2)\<rparr>
      in reportProgress (Fin 0) s3)"

definition pause :: "real \<Rightarrow> sequencer \<Rightarrow> sequencer outcome" where
  "pause now s =
     (let s1 = s\<lparr>isPlaying := False, isPaused := True\<rparr> in
      if audioContext (audioEngine s1) = None then Inl (TypeError, s1)
      else
        let s2 = s1\<lparr>pausedTime := now\<rparr>;
            s3 = clearPlaybackTimer s2
        in Inr (s3\<lparr>audioEngine := stopAllNotes now (audioEngine s3)\<rparr>))"

definition play :: "real \<Rightarrow> sequencer \<Rightarrow> sequencer outcome" where
  "play now s =
     (if tabData s = None then Inr s
      else case ensureAudioContext (audioEngine s) of
             Inl x \<Rightarrow> Inl (fst x, s\<lparr>audioEngine := snd x\<rparr>)
           | Inr e \<Rightarrow>
               let s1 = s\<lparr>audioEngine := setMasterVolume now 0.3 e\<rparr> in
               if isPaused s1 then resume now s1 else startFreshPlayback now s1)"

definition loop :: "real \<Rightarrow> sequencer \<Rightarrow> sequencer outcome" where
  "loop now s =
     (let loopStartBeat = (loopStartMeasure s - 1) * 4;
          s1 = s\<lparr>currentBeat := loopStartBeat\<rparr>
      in if audioContext (audioEngine s1) = None then Inl (TypeError, s1)
         else
           let s2 = s1\<lparr>startTime := now - (loopStartBeat * 60.0 / tempo s1),
                       totalPausedDuration := 0\<rparr>;
               loopEndBeat = loopEndMeasure s2 * 4
           in Inr (s2\<lparr>allNotes :=
                        map (\<lambda>noteData.
                               if nd_beatPosition noteData \<ge> loopStartBeat \<and>
                                  nd_beatPosition noteData < loopEndBeat
                               then noteData\<lparr>triggered := False\<rparr> else noteData)
                          (allNotes s2)\<rparr>))"

definition lookahead :: real where
  "lookahead = 0.05"

text \<open>
  The \<open>for\<close> loop of the timer callback over \<open>allNotes\<close>. It returns the entries with
  their flags updated and, in call order, the arguments of the \<open>playNote\<close> calls it makes.
\<close>

fun triggerNotes ::
  "real \<Rightarrow> real \<Rightarrow> note_data list \<Rightarrow> note_data list \<times> (note_event \<times> real \<times> real) list" where
  "triggerNotes cb bd [] = ([], [])"
| "triggerNotes cb bd (noteData # rest) =
     (case triggerNotes cb bd rest of
        (rest', calls) \<Rightarrow>
          if \<not> triggered noteData \<and>
             cb \<ge> nd_beatPosition noteData - lookahead \<and>
             cb \<le> nd_beatPosition noteData + lookahead
          then
            let noteStartTime = max 0 ((nd_beatPosition noteData - cb) * bd);
                noteDuration = nd_beatDuration noteData * bd
            in (noteData\<lparr>triggered := True\<rparr> # rest',
                (nd_note noteData, noteStartTime, noteDuration) # calls)
          else (noteData # rest', calls))"

text \<open>
  \<open>playNote\<close> is asynchronous: each call made by the timer callback runs its body after
  the callback has returned. \<open>runCalls\<close> runs the bodies, in call order; a body that
  throws rejects its own promise only.
\<close>

definition runCalls :: "real \<Rightarrow> (note_event \<times> real \<times> real) list \<Rightarrow> sequencer \<Rightarrow> sequencer" where
  "runCalls now calls s =
     s\<lparr>audioEngine :=
         fold (\<lambda>c e. case c of (n, noteStartTime, noteDuration) \<Rightarrow>
                 returned (playNote now n noteStartTime noteDuration e))
           calls (audioEngine s)\<rparr>"

definition complete :: "sequencer \<Rightarrow> sequencer" where
  "complete s = (if onCompleteCallback s then s\<lparr>completions := Suc (completions s)\<rparr> else s)"

text \<open>
  The timer callback of \<open>startRealtimePlayback\<close>; \<open>now\<close> is the reading of
  \<open>audioContext.currentTime\<close>.
\<close>

definition tick :: "real \<Rightarrow> sequencer \<Rightarrow> sequencer outcome" where
  "tick now s =
     (if \<not> isPlaying s then Inr s
      else if audioContext (audioEngine s) = None then Inl (TypeError, s)
      else
        let currentTime = now;
            elapsed = currentTime - startTime s - totalPausedDuration s;
            beatDuration' = 60.0 / tempo s;
            s1 = s\<lparr>currentBeat := elapsed / beatDuration'\<rparr>;
            progress = js_min (js_div (currentBeat s1) (totalDuration s1 / beatDuration')) 1.0;
            fired = triggerNotes (currentBeat s1) beatDuration' (allNotes s1);
            s2 = s1\<lparr>allNotes := fst fired\<rparr>;
            calls = snd fired;
            s3 = reportProgress progress s2
        in case tabData s3 of
             None \<Rightarrow> Inl (TypeError, runCalls now calls s3)
           | Some td \<Rightarrow>
               let loopEndBeat = loopEndMeasure s3 * 4;
                   totalBeats = real (length (measures td)) * 4
               in if isLooping s3 \<and> currentBeat s3 \<ge> loopEndBeat then
                    (case loop now s3 of
                       Inl x \<Rightarrow> Inl (fst x, runCalls now calls (snd x))
                     | Inr s4 \<Rightarrow> Inr (runCalls now calls s4))
                  else if \<not> isLooping s3 \<and> js_ge progress 1.0 then
                    Inr (runCalls now calls (complete (stop now s3)))
                  else Inr (runCalls now calls s3))"

text \<open>
  A run of timer callbacks at the given clock readings. A callback that throws leaves
  the state as it stands, and the timer goes on.
\<close>

fun ticks :: "real list \<Rightarrow> sequencer \<Rightarrow> sequencer" where
  "ticks [] s = s"
| "ticks (now # rest) s = ticks rest (returned (tick now s))"

section \<open>Notions used in the statements\<close>

text \<open>
  An engine after a successful \<open>initialize\<close>: the context and the master gain exist.
\<close>

definition engineReady :: "engine \<Rightarrow> bool" where
  "engineReady e = (isInitialized e \<and> audioContext e \<noteq> None \<and> masterGain e \<noteq> None)"

text \<open>
  A note that \<open>noteEventToMidiNote\<close> accepts.
\<close>

definition validNote :: "note_event \<Rightarrow> bool" where
  "validNote n = (0 \<le> fret n \<and> 0 \<le> stringIndex n \<and> stringIndex n < 6)"

text \<open>
  The quantities the timer callback computes at clock reading \<open>now\<close>, named for the
  proofs: the beat, the progress, the result of the loop over \<open>allNotes\<close>, and the state
  once the progress has been reported. \<open>tick_eq\<close> below shows that \<open>tick\<close> is built from
  them.
\<close>

definition beatAt :: "real \<Rightarrow> sequencer \<Rightarrow> real" where
  "beatAt now s = (now - startTime s - totalPausedDuration s) / (60.0 / tempo s)"

definition tickProgress :: "real \<Rightarrow> sequencer \<Rightarrow> jsnum" where
  "tickProgress now s = js_min (js_div (beatAt now s) (totalDuration s / (60.0 / tempo s))) 1.0"

definition tickFired :: "real \<Rightarrow> sequencer \<Rightarrow> note_data list \<times> (note_event \<times> real \<times> real) list" where
  "tickFired now s = triggerNotes (beatAt now s) (60.0 / tempo s) (allNotes s)"

definition tickReport :: "real \<Rightarrow> sequencer \<Rightarrow> sequencer" where
  "tickReport now s =
     reportProgress (tickProgress now s)
       (s\<lparr>currentBeat := beatAt now s, allNotes := fst (tickFired now s)\<rparr>)"

text \<open>
  The fields of the sequencer that do not belong to the clock, the timers or the engine.
\<close>

definition beatFields ::
  "sequencer \<Rightarrow> (bool \<times> real \<times> real \<times> real \<times> note_data list) \<times> (tab option \<times> bool \<times> real \<times> real) \<times> (bool \<times> bool \<times> jsnum list \<times> nat)" where
  "beatFields s =
     ((isPlaying s, currentBeat s, tempo s, totalDuration s, allNotes s),
      (tabData s, isLooping s, loopStartMeasure s, loopEndMeasure s),
      (onProgressCallback s, onCompleteCallback s, progressReports s, completions s))"

text \<open>
  The condition under which the loop of the timer callback dispatches an entry, and the
  window of an entry around its beat position.
\<close>

definition due :: "real \<Rightarrow> note_data \<Rightarrow> bool" where
  "due cb noteData =
     (\<not> triggered noteData \<and> cb \<ge> nd_beatPosition noteData - lookahead \<and>
      cb \<le> nd_beatPosition noteData + lookahead)"










section \<open>Example inputs\<close>

text \<open>
  An initialised engine, the note A4 on the high E string and on the (wound) D string, and
  the engine after the first has been scheduled 5 seconds ahead at clock reading 0.
\<close>

definition demoEngine :: engine where
  "demoEngine = returned (initialize (newEngine (Some Running)))"

definition noteA4 :: note_event where
  "noteA4 = \<lparr>stringIndex = 0, fret = 5, beatPosition = 0, beatDuration = 1,
             globalBeatPosition = None\<rparr>"

definition woundA4 :: note_event where
  "woundA4 = \<lparr>stringIndex = 3, fret = 19, beatPosition = 0, beatDuration = 1,
              globalBeatPosition = None\<rparr>"

definition pendingEngine :: engine where
  "pendingEngine = returned (playNote 0 noteA4 5 1 demoEngine)"

text \<open>
  A tab of tempo 300, and a tab of one measure at tempo 120.
\<close>

definition fastTab :: tab where
  "fastTab = \<lparr>title = None, tab_tempo = Some 300, measures = []\<rparr>"

definition oneMeasureTab :: tab where
  "oneMeasureTab = \<lparr>title = None, tab_tempo = Some 120,
      measures = [\<lparr>timeSignature = None, measure_notes = []\<rparr>]\<rparr>"

text \<open>A sequencer with a tab loaded whose engine has been muted by \<open>setMasterVolume(0)\<close>.\<close>

definition mutedSequencer :: sequencer where
  "mutedSequencer = setTabData oneMeasureTab (newSequencer (setMasterVolume 0 0 demoEngine))"

text \<open>A sequencer playing a tab of one measure at tempo 120, started at clock reading 0.\<close>

definition playingSequencer :: sequencer where
  "playingSequencer = returned (play 0 (setTabData oneMeasureTab (newSequencer demoEngine)))"

text \<open>
  A tab of two measures whose only note, in the second measure, carries no
  \<open>globalBeatPosition\<close>.
\<close>

definition lateNote :: note_event where
  "lateNote = \<lparr>stringIndex = 0, fret = 0, beatPosition = 2, beatDuration = 1,
               globalBeatPosition = None\<rparr>"

definition twoMeasureTab :: tab where
  "twoMeasureTab = \<lparr>title = None, tab_tempo = Some 120,
      measures = [\<lparr>timeSignature = None, measure_notes = []\<rparr>,
                  \<lparr>timeSignature = None, measure_notes = [lateNote]\<rparr>]\<rparr>"

text \<open>
  A tab at tempo 120 whose only note lies at beat 0.08, that is 40 ms after the start, and
  a sequencer that has just started to play it at clock reading 0.
\<close>

definition earlyNote :: note_event where
  "earlyNote = \<lparr>stringIndex = 0, fret = 5, beatPosition = 0.08, beatDuration = 1,
                globalBeatPosition = Some 0.08\<rparr>"

definition earlyTab :: tab where
  "earlyTab = \<lparr>title = None, tab_tempo = Some 120,
      measures = [\<lparr>timeSignature = None, measure_notes = [earlyNote]\<rparr>]\<rparr>"

definition earlySequencer :: sequencer where
  "earlySequencer = returned (play 0 (setTabData earlyTab (newSequencer demoEngine)))"

text \<open>
  A sequencer with a progress observer that started to play the one-measure tab at tempo
  120 and was then set to tempo 60.
\<close>

definition slowedSequencer :: sequencer where
  "slowedSequencer =
     setTempo 60
       (returned (play 0 (setProgressCallback (setTabData oneMeasureTab (newSequencer demoEngine)))))"







section \<open>The platform model: values of a parameter\<close>

lemma automate_all_past:
  "\<forall>ev \<in> set evs. eventTime ev \<le> tm \<Longrightarrow>
   automate v0 t0 evs tm = (if evs = [] then v0 else targetValue (last evs))"
  by (induction evs arbitrary: v0 t0) auto

lemma insertEvent_last:
  "\<forall>x \<in> set xs. eventTime x \<le> eventTime ev \<Longrightarrow> insertEvent ev xs = xs @ [ev]"
  by (induction xs) auto

lemma zeroGain_timeline:
  "timeline (zeroGain t g) = filter (\<lambda>ev. eventTime ev < t) (timeline g) @ [SetValue 0 t]"
  by (simp add: zeroGain_def setValueAtTime_def cancelScheduledValues_def insertEvent_last)

lemma valueAt_zeroGain: "t \<le> tm \<Longrightarrow> valueAt (zeroGain t g) tm = 0"
  by (simp add: valueAt_def zeroGain_timeline automate_all_past) 

lemma muteMaster_timeline:
  "timeline (muteMaster t g) =
     filter (\<lambda>ev. eventTime ev < t) (timeline g) @
       [SetValue (valueAt (cancelScheduledValues t g) t) t, LinearRamp 0.0001 (t + 0.01)]"
  by (simp add: muteMaster_def Let_def linearRampToValueAtTime_def setValueAtTime_def
      cancelScheduledValues_def insertEvent_last)

lemma valueAt_muteMaster: "t + 0.01 \<le> tm \<Longrightarrow> valueAt (muteMaster t g) tm = 0.0001"
  by (simp add: valueAt_def muteMaster_timeline automate_all_past)

lemma valueAt_set_after_cancel:
  "t \<le> tm \<Longrightarrow> valueAt (setValueAtTime v t (cancelScheduledValues t g)) tm = v"
  by (simp add: valueAt_def setValueAtTime_def cancelScheduledValues_def insertEvent_last
      automate_all_past)

section \<open>The engine: initialisation and the master volume\<close>

lemma ensureAudioContext_ready:
  "engineReady e \<Longrightarrow>
   \<exists>e1. ensureAudioContext e = Inr e1 \<and> e1 = e\<lparr>audioContext := Some Running\<rparr>"
  by (auto simp: engineReady_def ensureAudioContext_def split: context_state.splits)

lemma ensureAudioContext_available:
  assumes "engineReady e \<or> (\<not> isInitialized e \<and> window_AudioContext e \<noteq> None)"
  shows "\<exists>e1. ensureAudioContext e = Inr e1 \<and> engineReady e1"
  using assms
  by (auto simp: engineReady_def ensureAudioContext_def initialize_def
      split: context_state.splits)


lemma setMasterVolume_level:
  "engineReady e \<Longrightarrow> now \<le> tm \<Longrightarrow>
   masterLevel (setMasterVolume now volume e) tm = max 0 (min 1 volume)"
  by (auto simp: engineReady_def setMasterVolume_def masterLevel_def Let_def
      valueAt_set_after_cancel)

lemma setMasterVolume_context: "audioContext (setMasterVolume now volume e) = audioContext e"
  by (auto simp: setMasterVolume_def Let_def split: option.splits)

lemma setMasterVolume_voices: "voiceNodes (setMasterVolume now volume e) = voiceNodes e"
  by (simp add: setMasterVolume_def Let_def split: option.splits)

lemma stopAllNotes_context: "audioContext (stopAllNotes t e) = audioContext e"
  by (simp add: stopAllNotes_def Let_def)

lemma demoEngine_eq:
  "demoEngine = (newEngine (Some Running))\<lparr>audioContext := Some Running,
      masterGain := Some \<lparr>assigned = 0.3, timeline = []\<rparr>, isInitialized := True\<rparr>"
  by (simp add: demoEngine_def returned_def initialize_def newEngine_def)

lemma demoEngine_ready: "engineReady demoEngine"
  by (simp add: engineReady_def demoEngine_eq)

lemma demoEngine_context: "audioContext demoEngine = Some Running"
  by (simp add: demoEngine_eq)

lemma demoEngine_counts: "oscillatorCount demoEngine = 0 \<and> voiceCount demoEngine = 0"
  by (simp add: demoEngine_eq newEngine_def)

lemma demoEngine_ensure: "ensureAudioContext demoEngine = Inr demoEngine"
  by (simp add: ensureAudioContext_def demoEngine_eq newEngine_def)

lemma noteA4_facts:
  "validNote noteA4 \<and> noteEventToMidiNote noteA4 = 69 \<and> stringIndex noteA4 = 0"
  by (simp add: validNote_def noteA4_def noteEventToMidiNote_def standardTuning_def)

section \<open>The engine: the oscillators of a note\<close>

lemma harmonic_bank:
  "fold (createHarmonic sc v st d) (enumerate 0 (harmonics f)) e =
     e\<lparr>oscillatorNodes := (oscillatorNodes e)
          (oscillatorCount e := \<lparr>osc_frequency = f, osc_type = Triangle, osc_gain = 1,
              osc_output = Some v, osc_start = st, osc_stop = st + d\<rparr>,
           oscillatorCount e + 1 := \<lparr>osc_frequency = f * 2, osc_type = Sine, osc_gain = 0.6,
              osc_output = Some v, osc_start = st, osc_stop = st + d\<rparr>,
           oscillatorCount e + 2 := \<lparr>osc_frequency = f * 3, osc_type = Sine,
              osc_gain = (if isWound sc then 0.3 * 0.7 else 0.3),
              osc_output = Some v, osc_start = st, osc_stop = st + d\<rparr>,
           oscillatorCount e + 3 := \<lparr>osc_frequency = f * 4, osc_type = Sine,
              osc_gain = (if isWound sc then 0.15 * 0.7 else 0.15),
              osc_output = Some v, osc_start = st, osc_stop = st + d\<rparr>,
           oscillatorCount e + 4 := \<lparr>osc_frequency = f * 5, osc_type = Sine,
              osc_gain = (if isWound sc then 0.1 * 0.7 else 0.1),
              osc_output = Some v, osc_start = st, osc_stop = st + d\<rparr>),
         oscillatorCount := oscillatorCount e + 5,
         activeOscillators :=
           setAdd (oscillatorCount e + 4) (setAdd (oscillatorCount e + 3)
             (setAdd (oscillatorCount e + 2) (setAdd (oscillatorCount e + 1)
               (setAdd (oscillatorCount e) (activeOscillators e)))))\<rparr>"
  by (simp add: harmonics_def createHarmonic_def Let_def eval_nat_numeral)

lemma upt_6: "[c ..< c + 6] = [c, c + 1, c + 2, c + 3, c + 4, c + 5]"
  by (simp add: upt_rec)

lemma playSimpleGuitarNote_returns:
  "audioContext e \<noteq> None \<Longrightarrow> masterGain e \<noteq> None \<Longrightarrow> 0 \<le> si \<Longrightarrow> si < 6 \<Longrightarrow>
   \<exists>e'. playSimpleGuitarNote midiNote st d si e = Inr e'"
  by (auto simp: playSimpleGuitarNote_def Let_def harmonic_bank stringCharacteristics_def)

lemma playSimpleGuitarNote_bank:
  assumes "playSimpleGuitarNote midiNote st d si e = Inr e'"
  shows "oscillatorCount e' = oscillatorCount e + 6 \<and> voiceCount e' = voiceCount e + 1 \<and>
         [k \<leftarrow> [oscillatorCount e ..< oscillatorCount e + 6].
            osc_output (oscillatorNodes e' k) = Some (voiceCount e)] =
           [oscillatorCount e, oscillatorCount e + 1, oscillatorCount e + 2,
            oscillatorCount e + 3, oscillatorCount e + 4] \<and>
         map (\<lambda>k. (osc_frequency (oscillatorNodes e' k), osc_gain (oscillatorNodes e' k)))
           [oscillatorCount e, oscillatorCount e + 1, oscillatorCount e + 2,
            oscillatorCount e + 3, oscillatorCount e + 4] =
           (let f = 440 * 2 powr ((real_of_int midiNote - 69) / 12);
                w = (if isWound (stringCharacteristics ! nat si) then 0.7 else 1)
            in [(f, 1), (f * 2, 0.6), (f * 3, 0.3 * w), (f * 4, 0.15 * w), (f * 5, 0.1 * w)])"
  using assms
  by (auto simp: playSimpleGuitarNote_def Let_def harmonic_bank upt_6 split: if_splits)

lemma playSimpleGuitarNote_result:
  assumes "audioContext e \<noteq> None" and "masterGain e \<noteq> None" and "0 \<le> si" and "si < 6"
  shows "\<exists>e'. playSimpleGuitarNote midiNote st d si e = Inr e' \<and>
           masterGain e' = masterGain e \<and> audioContext e' = audioContext e \<and>
           isInitialized e' = isInitialized e \<and>
           activeVoices e' = AList.update (NoteId midiNote st) (voiceCount e) (activeVoices e) \<and>
           activeOscillators e' =
             setAdd (oscillatorCount e + 5) (setAdd (oscillatorCount e + 4)
               (setAdd (oscillatorCount e + 3) (setAdd (oscillatorCount e + 2)
                 (setAdd (oscillatorCount e + 1) (setAdd (oscillatorCount e)
                   (activeOscillators e)))))) \<and>
           stoppableGain (voiceNodes e' (voiceCount e)) = \<lparr>assigned = 1, timeline = []\<rparr> \<and>
           (\<forall>k \<in> {oscillatorCount e ..< oscillatorCount e + 5}.
              osc_start (oscillatorNodes e' k) = st \<and> osc_stop (oscillatorNodes e' k) = st + d)"
proof -
  have r: "k \<in> {c ..< c + 5} \<Longrightarrow> k = c \<or> k = c + 1 \<or> k = c + 2 \<or> k = c + 3 \<or> k = c + 4"
    for k c :: nat
    by auto
  from assms show ?thesis
    by (auto simp: playSimpleGuitarNote_def Let_def harmonic_bank stringCharacteristics_def
        dest!: r)
qed



lemma validNote_midi: "validNote n \<Longrightarrow> 40 \<le> noteEventToMidiNote n"
proof -
  assume v: "validNote n"
  then have "stringIndex n \<in> {0, 1, 2, 3, 4, 5}"
    by (auto simp: validNote_def)
  with v show ?thesis
    by (auto simp: validNote_def noteEventToMidiNote_def standardTuning_def)
qed

text \<open>
  Claim C9. On an initialised engine \<open>playNote\<close> returns for every note with a valid string
  and fret, and creates six oscillators, of which exactly five feed the mix of the new
  voice: they run at the fundamental \<open>f\<close> and at \<open>2f\<close> to \<open>5f\<close> with the gains 1, 0.6, 0.3, 0.15
  and 0.1, the last three multiplied by 0.7 when the string is wound. (The sixth is the
  vibrato oscillator, which feeds no voice.)
\<close>

theorem playNote_harmonic_bank:
  assumes "engineReady e" and "validNote n"
  shows "\<exists>e'. playNote now n st d e = Inr e' \<and>
           oscillatorCount e' = oscillatorCount e + 6 \<and> voiceCount e' = voiceCount e + 1 \<and>
           [k \<leftarrow> [oscillatorCount e ..< oscillatorCount e + 6].
              osc_output (oscillatorNodes e' k) = Some (voiceCount e)] =
             [oscillatorCount e, oscillatorCount e + 1, oscillatorCount e + 2,
              oscillatorCount e + 3, oscillatorCount e + 4] \<and>
           map (\<lambda>k. (osc_frequency (oscillatorNodes e' k), osc_gain (oscillatorNodes e' k)))
             [oscillatorCount e, oscillatorCount e + 1, oscillatorCount e + 2,
              oscillatorCount e + 3, oscillatorCount e + 4] =
             (let f = 440 * 2 powr ((real_of_int (noteEventToMidiNote n) - 69) / 12);
                  w = (if isWound (stringCharacteristics ! nat (stringIndex n)) then 0.7 else 1)
              in [(f, 1), (f * 2, 0.6), (f * 3, 0.3 * w), (f * 4, 0.15 * w), (f * 5, 0.1 * w)])"
proof -
  let ?e1 = "e\<lparr>audioContext := Some Running\<rparr>"
  from assms(1) have ens: "ensureAudioContext e = Inr ?e1"
    using ensureAudioContext_ready by blast
  from assms(2) have midi: "\<not> noteEventToMidiNote n < 0"
    using validNote_midi [of n] by simp
  from assms have "\<exists>e'. playSimpleGuitarNote (noteEventToMidiNote n) (now + st) d (stringIndex n) ?e1 = Inr e'"
    by (intro playSimpleGuitarNote_returns) (auto simp: engineReady_def validNote_def)
  then obtain e' where
    e': "playSimpleGuitarNote (noteEventToMidiNote n) (now + st) d (stringIndex n) ?e1 = Inr e'"
    by blast
  from ens midi e' have "playNote now n st d e = Inr e'"
    by (simp add: playNote_def Let_def)
  with playSimpleGuitarNote_bank [OF e'] show ?thesis
    by simp
qed

theorem playNote_harmonic_bank_witness:
  "engineReady demoEngine \<and> validNote woundA4 \<and>
   (\<exists>e'. playNote 0 woundA4 0 1 demoEngine = Inr e' \<and> oscillatorCount e' = 6 \<and>
      [k \<leftarrow> [0 ..< 6]. osc_output (oscillatorNodes e' k) = Some 0] = [0, 1, 2, 3, 4] \<and>
      map (\<lambda>k. (osc_frequency (oscillatorNodes e' k), osc_gain (oscillatorNodes e' k)))
        [0, 1, 2, 3, 4] =
        [(440, 1), (880, 6 / 10), (1320, 21 / 100), (1760, 105 / 1000), (2200, 7 / 100)])"
proof -
  have h: "engineReady demoEngine" "validNote woundA4"
    by (simp_all add: demoEngine_ready validNote_def woundA4_def)
  have c: "oscillatorCount demoEngine = 0" "voiceCount demoEngine = 0"
    by (simp_all add: demoEngine_eq newEngine_def)
  have m: "noteEventToMidiNote woundA4 = 69" "stringIndex woundA4 = 3"
    "isWound (stringCharacteristics ! 3)"
    by (simp_all add: noteEventToMidiNote_def woundA4_def standardTuning_def
        stringCharacteristics_def)
  from playNote_harmonic_bank [OF h, of 0 0 1] show ?thesis
    using h by (auto simp: c m Let_def numeral_2_eq_2)
qed

section \<open>The engine: cancellation\<close>

lemma fold_stop_oscillators:
  "fold (\<lambda>osc nodes. nodes(osc := (nodes osc)\<lparr>osc_stop := t\<rparr>)) oscs nodes k =
     (if k \<in> set oscs then (nodes k)\<lparr>osc_stop := t\<rparr> else nodes k)"
  by (induction oscs arbitrary: nodes) auto

lemma fold_zero_gains:
  "k \<in> set gs \<or> P (stoppableGain (nodes k)) \<Longrightarrow> (\<And>g. P (zeroGain t g)) \<Longrightarrow>
   P (stoppableGain
       (fold (\<lambda>g nodes. nodes(g := (nodes g)\<lparr>stoppableGain := zeroGain t (stoppableGain (nodes g))\<rparr>))
          gs nodes k))"
  by (induction gs arbitrary: nodes) auto

lemma stopAllNotes_oscillator:
  "audioContext e \<noteq> None \<Longrightarrow> osc \<in> set (activeOscillators e) \<Longrightarrow>
   oscillatorNodes (stopAllNotes t e) osc = (oscillatorNodes e osc)\<lparr>osc_stop := t\<rparr>"
  by (auto simp: stopAllNotes_def Let_def fold_stop_oscillators)

lemma stopAllNotes_voice:
  assumes "audioContext e \<noteq> None" and "v \<in> snd ` set (activeVoices e)" and "t \<le> tm"
  shows "valueAt (stoppableGain (voiceNodes (stopAllNotes t e) v)) tm = 0"
proof -
  have "(\<lambda>g. valueAt g tm = 0)
          (stoppableGain
            (fold (\<lambda>g nodes. nodes(g := (nodes g)\<lparr>stoppableGain := zeroGain t (stoppableGain (nodes g))\<rparr>))
               (map snd (activeVoices e)) (voiceNodes e) v))"
    by (rule fold_zero_gains) (use assms in \<open>auto simp: valueAt_zeroGain\<close>)
  with assms(1) show ?thesis
    by (auto simp: stopAllNotes_def Let_def)
qed

lemma stopAllNotes_ready:
  assumes "engineReady e"
  shows "engineReady (stopAllNotes t e) \<and> activeVoices (stopAllNotes t e) = [] \<and>
         activeOscillators (stopAllNotes t e) = [] \<and>
         oscillatorCount (stopAllNotes t e) = oscillatorCount e \<and>
         voiceCount (stopAllNotes t e) = voiceCount e \<and>
         (\<exists>g. masterGain e = Some g \<and> masterGain (stopAllNotes t e) = Some (muteMaster t g))"
  using assms by (auto simp: engineReady_def stopAllNotes_def Let_def)

text \<open>
  Claim C1. For an engine with a context, \<open>stopAllNotes\<close> at clock reading \<open>t\<close> gives every
  oscillator it finds in \<open>activeOscillators\<close> the stop time \<open>t\<close>, so that none of them sounds
  at any time from \<open>t\<close> on, whatever its start time was; it leaves the stoppable gain of
  every voice it finds in \<open>activeVoices\<close> at zero from \<open>t\<close> on, so that whatever signal
  reaches that gain the voice's output is zero; and it empties both registries.
\<close>

theorem stopAllNotes_silences_registered:
  assumes "audioContext e \<noteq> None" and "t \<le> tm"
  shows "(\<forall>osc \<in> set (activeOscillators e).
            osc_stop (oscillatorNodes (stopAllNotes t e) osc) = t \<and>
            \<not> oscSounding (oscillatorNodes (stopAllNotes t e) osc) tm) \<and>
         (\<forall>v \<in> snd ` set (activeVoices e).
            valueAt (stoppableGain (voiceNodes (stopAllNotes t e) v)) tm = 0 \<and>
            gainOutput (stoppableGain (voiceNodes (stopAllNotes t e) v)) signal tm = 0 \<and>
            voiceLevel (stopAllNotes t e) v tm = 0) \<and>
         activeOscillators (stopAllNotes t e) = [] \<and> activeVoices (stopAllNotes t e) = []"
proof (intro conjI ballI)
  fix osc assume "osc \<in> set (activeOscillators e)"
  with assms show "osc_stop (oscillatorNodes (stopAllNotes t e) osc) = t"
    and "\<not> oscSounding (oscillatorNodes (stopAllNotes t e) osc) tm"
    by (simp_all add: stopAllNotes_oscillator oscSounding_def)
next
  fix v assume v: "v \<in> snd ` set (activeVoices e)"
  from stopAllNotes_voice [OF assms(1) v assms(2)]
  show "valueAt (stoppableGain (voiceNodes (stopAllNotes t e) v)) tm = 0"
    and "gainOutput (stoppableGain (voiceNodes (stopAllNotes t e) v)) signal tm = 0"
    and "voiceLevel (stopAllNotes t e) v tm = 0"
    by (simp_all add: gainOutput_def voiceLevel_def)
next
  from assms(1) show "activeOscillators (stopAllNotes t e) = []"
    and "activeVoices (stopAllNotes t e) = []"
    by (auto simp: stopAllNotes_def Let_def)
qed

lemma pendingEngine_facts:
  "audioContext pendingEngine = Some Running \<and>
   activeVoices pendingEngine = [(NoteId 69 5, 0)] \<and>
   activeOscillators pendingEngine = [0, 1, 2, 3, 4, 5] \<and>
   osc_start (oscillatorNodes pendingEngine 0) = 5 \<and>
   osc_stop (oscillatorNodes pendingEngine 0) = 6 \<and>
   stoppableGain (voiceNodes pendingEngine 0) = \<lparr>assigned = 1, timeline = []\<rparr> \<and>
   masterGain pendingEngine = Some \<lparr>assigned = 0.3, timeline = []\<rparr>"
  by (simp add: pendingEngine_def demoEngine_eq newEngine_def playNote_def ensureAudioContext_def
      noteEventToMidiNote_def noteA4_def standardTuning_def playSimpleGuitarNote_def
      stringCharacteristics_def harmonics_def createHarmonic_def Let_def setAdd_def returned_def)

theorem stopAllNotes_silences_registered_witness:
  "audioContext pendingEngine \<noteq> None \<and> (1::real) \<le> 11 / 2 \<and>
   0 \<in> set (activeOscillators pendingEngine) \<and>
   0 \<in> snd ` set (activeVoices pendingEngine) \<and>
   oscSounding (oscillatorNodes pendingEngine 0) (11 / 2) \<and>
   voiceLevel pendingEngine 0 (11 / 2) = 3 / 10 \<and>
   \<not> oscSounding (oscillatorNodes (stopAllNotes 1 pendingEngine) 0) (11 / 2) \<and>
   voiceLevel (stopAllNotes 1 pendingEngine) 0 (11 / 2) = 0"
proof -
  have h: "audioContext pendingEngine \<noteq> None" "(1::real) \<le> 11 / 2"
    by (simp_all add: pendingEngine_facts)
  have m: "0 \<in> set (activeOscillators pendingEngine)" "0 \<in> snd ` set (activeVoices pendingEngine)"
    by (simp_all add: pendingEngine_facts)
  have before: "oscSounding (oscillatorNodes pendingEngine 0) (11 / 2)"
    "voiceLevel pendingEngine 0 (11 / 2) = 3 / 10"
    by (simp_all add: oscSounding_def voiceLevel_def masterLevel_def valueAt_def pendingEngine_facts)
  from stopAllNotes_silences_registered [OF h, of 1] m before h show ?thesis
    by blast
qed

section \<open>The engine: a note played after the cancellation\<close>

text \<open>
  Claim C8, as the code has it. After \<open>stopAllNotes\<close> both registries are empty, so
  \<open>playNote\<close> for a valid note on the initialised engine returns with its own voice and its
  own six oscillators as the only registered ones; the stoppable gain of that voice is 1
  at all times and its five harmonic oscillators keep the start and stop times they were
  given: the cancellation does not reach them. The master gain, however, stays at the
  muted value 0.0001 from 10 ms after the cancellation on, and with it the level of the
  new voice, until \<open>setMasterVolume\<close> (which \<open>play\<close> and \<open>resumeAudio\<close> call with 0.3)
  restores it.
\<close>

theorem playNote_after_stopAllNotes:
  assumes "engineReady e" and "validNote n"
  shows "\<exists>e'. playNote t' n st d (stopAllNotes t e) = Inr e' \<and>
           activeVoices e' = [(NoteId (noteEventToMidiNote n) (t' + st), voiceCount e)] \<and>
           activeOscillators e' = [oscillatorCount e ..< oscillatorCount e + 6] \<and>
           (\<forall>tm. valueAt (stoppableGain (voiceNodes e' (voiceCount e))) tm = 1) \<and>
           (\<forall>k \<in> {oscillatorCount e ..< oscillatorCount e + 5}.
              osc_start (oscillatorNodes e' k) = t' + st \<and>
              osc_stop (oscillatorNodes e' k) = t' + st + d) \<and>
           (\<forall>tm \<ge> t + 0.01.
              masterLevel e' tm = 0.0001 \<and> voiceLevel e' (voiceCount e) tm = 0.0001) \<and>
           (\<forall>t'' tm. t'' \<le> tm \<longrightarrow>
              masterLevel (setMasterVolume t'' 0.3 e') tm = 0.3 \<and>
              voiceLevel (setMasterVolume t'' 0.3 e') (voiceCount e) tm = 0.3)"
proof -
  let ?e0 = "stopAllNotes t e"
  let ?e1 = "?e0\<lparr>audioContext := Some Running\<rparr>"
  from stopAllNotes_ready [OF assms(1), of t] obtain g where
    e0: "engineReady ?e0" "activeVoices ?e0 = []" "activeOscillators ?e0 = []"
      "oscillatorCount ?e0 = oscillatorCount e" "voiceCount ?e0 = voiceCount e"
      "masterGain ?e0 = Some (muteMaster t g)"
    by blast
  from e0(1) have ens: "ensureAudioContext ?e0 = Inr ?e1"
    using ensureAudioContext_ready by blast
  from assms(2) have midi: "\<not> noteEventToMidiNote n < 0"
    using validNote_midi [of n] by simp
  have pre: "audioContext ?e1 \<noteq> None" "masterGain ?e1 \<noteq> None"
    "0 \<le> stringIndex n" "stringIndex n < 6"
    using e0(6) assms(2) by (simp_all add: validNote_def)
  from playSimpleGuitarNote_result [OF pre, of "noteEventToMidiNote n" "t' + st" d]
  obtain e' where
    e': "playSimpleGuitarNote (noteEventToMidiNote n) (t' + st) d (stringIndex n) ?e1 = Inr e'"
      "masterGain e' = masterGain ?e1" "audioContext e' = audioContext ?e1"
      "isInitialized e' = isInitialized ?e1"
      "activeVoices e' =
         AList.update (NoteId (noteEventToMidiNote n) (t' + st)) (voiceCount ?e1) (activeVoices ?e1)"
      "activeOscillators e' =
         setAdd (oscillatorCount ?e1 + 5) (setAdd (oscillatorCount ?e1 + 4)
           (setAdd (oscillatorCount ?e1 + 3) (setAdd (oscillatorCount ?e1 + 2)
             (setAdd (oscillatorCount ?e1 + 1) (setAdd (oscillatorCount ?e1)
               (activeOscillators ?e1))))))"
      "stoppableGain (voiceNodes e' (voiceCount ?e1)) = \<lparr>assigned = 1, timeline = []\<rparr>"
      "\<forall>k \<in> {oscillatorCount ?e1 ..< oscillatorCount ?e1 + 5}.
         osc_start (oscillatorNodes e' k) = t' + st \<and>
         osc_stop (oscillatorNodes e' k) = t' + st + d"
    by blast
  have call: "playNote t' n st d ?e0 = Inr e'"
    using ens midi e'(1) by (simp add: playNote_def Let_def)
  have voices: "activeVoices e' = [(NoteId (noteEventToMidiNote n) (t' + st), voiceCount e)]"
    using e'(5) e0 by simp
  have oscs: "activeOscillators e' = [oscillatorCount e ..< oscillatorCount e + 6]"
    using e'(6) e0 by (simp add: setAdd_def upt_6)
  have own: "valueAt (stoppableGain (voiceNodes e' (voiceCount e))) tm = 1" for tm
    using e'(7) e0 by (simp add: valueAt_def)
  have sched: "\<forall>k \<in> {oscillatorCount e ..< oscillatorCount e + 5}.
      osc_start (oscillatorNodes e' k) = t' + st \<and> osc_stop (oscillatorNodes e' k) = t' + st + d"
    using e'(8) e0 by simp
  have master: "masterGain e' = Some (muteMaster t g)"
    using e'(2) e0 by simp
  have muted: "masterLevel e' tm = 0.0001 \<and> voiceLevel e' (voiceCount e) tm = 0.0001"
    if "t + 0.01 \<le> tm" for tm
    using that own by (simp add: masterLevel_def voiceLevel_def master valueAt_muteMaster)
  have ready: "engineReady e'"
    using e0(1) e'(2,3,4) by (simp add: engineReady_def)
  have restored: "masterLevel (setMasterVolume t'' 0.3 e') tm = 0.3 \<and>
      voiceLevel (setMasterVolume t'' 0.3 e') (voiceCount e) tm = 0.3" if "t'' \<le> tm" for t'' tm
    using setMasterVolume_level [OF ready that, of "0.3"] own
    by (simp add: voiceLevel_def setMasterVolume_voices)
  from call voices oscs own sched muted restored show ?thesis
    by blast
qed

theorem playNote_after_stopAllNotes_witness:
  "engineReady demoEngine \<and> validNote noteA4 \<and>
   (\<exists>e'. playNote 1 noteA4 0 1 (stopAllNotes 0 demoEngine) = Inr e' \<and>
      activeVoices e' = [(NoteId 69 1, 0)] \<and>
      valueAt (stoppableGain (voiceNodes e' 0)) (3 / 2) = 1 \<and>
      voiceLevel e' 0 (3 / 2) = 1 / 10000 \<and>
      voiceLevel (setMasterVolume 1 0.3 e') 0 (3 / 2) = 3 / 10)"
proof -
  have h: "engineReady demoEngine" "validNote noteA4"
    by (simp_all add: demoEngine_ready noteA4_facts)
  from playNote_after_stopAllNotes [OF h, of 1 0 1 0] obtain e' where
    e': "playNote 1 noteA4 0 1 (stopAllNotes 0 demoEngine) = Inr e'"
      "activeVoices e' = [(NoteId (noteEventToMidiNote noteA4) (1 + 0), voiceCount demoEngine)]"
      "\<forall>tm. valueAt (stoppableGain (voiceNodes e' (voiceCount demoEngine))) tm = 1"
      "\<forall>tm \<ge> 0 + 0.01. masterLevel e' tm = 0.0001 \<and>
         voiceLevel e' (voiceCount demoEngine) tm = 0.0001"
      "\<forall>t'' tm. t'' \<le> tm \<longrightarrow>
         masterLevel (setMasterVolume t'' 0.3 e') tm = 0.3 \<and>
         voiceLevel (setMasterVolume t'' 0.3 e') (voiceCount demoEngine) tm = 0.3"
    by blast
  from e'(4) have a: "voiceLevel e' 0 (3 / 2) = 1 / 10000"
    by (simp add: demoEngine_counts)
  from e'(5) have b: "voiceLevel (setMasterVolume 1 0.3 e') 0 (3 / 2) = 3 / 10"
    by (simp add: demoEngine_counts)
  from e'(1,2,3) a b h show ?thesis
    by (auto simp: noteA4_facts demoEngine_counts)
qed

text \<open>
  The claim as stated fails: the same \<open>playNote\<close> call reaches the output at level 0.3
  on the engine as initialised, and at level 0.0001 when \<open>stopAllNotes\<close> has run before it.
\<close>

lemma playNote_demo:
  assumes "masterGain e = Some g" and "audioContext e = Some Running" and "isInitialized e"
    and "voiceCount e = 0"
  shows "\<exists>e'. playNote 1 noteA4 0 1 e = Inr e' \<and> masterGain e' = Some g \<and>
           stoppableGain (voiceNodes e' 0) = \<lparr>assigned = 1, timeline = []\<rparr>"
  using assms
  by (simp add: playNote_def ensureAudioContext_def noteA4_facts playSimpleGuitarNote_def
      stringCharacteristics_def harmonic_bank Let_def)

theorem playNote_after_stopAllNotes_muted:
  "voiceLevel (returned (playNote 1 noteA4 0 1 demoEngine)) 0 (3 / 2) = 3 / 10 \<and>
   voiceLevel (returned (playNote 1 noteA4 0 1 (stopAllNotes 0 demoEngine))) 0 (3 / 2) =
     1 / 10000"
proof -
  let ?g = "\<lparr>assigned = 0.3, timeline = []\<rparr>"
  have d: "masterGain demoEngine = Some ?g" "audioContext demoEngine = Some Running"
    "isInitialized demoEngine" "voiceCount demoEngine = 0"
    by (simp_all add: demoEngine_eq newEngine_def)
  have c: "masterGain (stopAllNotes 0 demoEngine) = Some (muteMaster 0 ?g)"
    "audioContext (stopAllNotes 0 demoEngine) = Some Running"
    "isInitialized (stopAllNotes 0 demoEngine)" "voiceCount (stopAllNotes 0 demoEngine) = 0"
    by (simp_all add: stopAllNotes_def Let_def d)
  from playNote_demo [OF d] obtain e1 where
    e1: "playNote 1 noteA4 0 1 demoEngine = Inr e1" "masterGain e1 = Some ?g"
      "stoppableGain (voiceNodes e1 0) = \<lparr>assigned = 1, timeline = []\<rparr>"
    by blast
  from playNote_demo [OF c] obtain e2 where
    e2: "playNote 1 noteA4 0 1 (stopAllNotes 0 demoEngine) = Inr e2"
      "masterGain e2 = Some (muteMaster 0 ?g)"
      "stoppableGain (voiceNodes e2 0) = \<lparr>assigned = 1, timeline = []\<rparr>"
    by blast
  have "voiceLevel e1 0 (3 / 2) = 3 / 10"
    by (simp add: voiceLevel_def masterLevel_def e1 valueAt_def)
  moreover have "voiceLevel e2 0 (3 / 2) = 1 / 10000"
    by (simp add: voiceLevel_def masterLevel_def e2 valueAt_muteMaster) (simp add: valueAt_def)
  ultimately show ?thesis
    by (simp add: e1(1) e2(1) returned_def)
qed

section \<open>The sequencer: tempo\<close>

text \<open>
  The tempo of a sequencer is never 0: it starts at 120, \<open>setTabData\<close> does not store a
  tempo of 0, and \<open>setTempo\<close> stores a tempo of at least 60. The divisions by \<open>60 / tempo\<close>
  of the timer callback are therefore divisions by a number other than 0.
\<close>

lemma tempo_nonzero:
  "tempo (newSequencer e) \<noteq> 0"
  "tempo s \<noteq> 0 \<Longrightarrow> tempo (setTabData td s) \<noteq> 0"
  "tempo (setTempo bpm s) \<noteq> 0"
  by (auto simp: newSequencer_def setTabData_def setTempo_def Let_def
      split: option.splits if_splits)

text \<open>
  Claim C7. \<open>setTempo\<close> clamps its argument to the range from 60 to 200, but
  \<open>setTabData\<close> stores the tempo of the tab as it is: loading a tab of tempo 300 leaves
  the sequencer at tempo 300.
\<close>

theorem setTabData_stores_unclamped_tempo:
  "tempo (setTabData fastTab (newSequencer demoEngine)) = 300 \<and>
   \<not> tempo (setTabData fastTab (newSequencer demoEngine)) \<le> 200 \<and>
   tempo (setTempo 300 (newSequencer demoEngine)) = 200"
  by (simp add: setTabData_def fastTab_def newSequencer_def setTempo_def)

section \<open>The sequencer: flattening the tab\<close>

lemma prepareNotes_returns:
  "tabData s = Some td \<Longrightarrow>
   prepareNotes s =
     Inr (s\<lparr>totalDuration := real (length (measures td)) * 4 * (60 / tempo s),
            allNotes := sort_key nd_beatPosition (collectNotes (measures td))\<rparr>)"
  by (simp add: prepareNotes_def Let_def)

lemma collectNotes_entries:
  "nd \<in> set (collectNotes ms) \<Longrightarrow>
   0 \<le> fret (nd_note nd) \<and> \<not> triggered nd \<and>
   nd_beatDuration nd = beatDuration (nd_note nd) \<and>
   nd_beatPosition nd =
     (case globalBeatPosition (nd_note nd) of Some g \<Rightarrow> g | None \<Rightarrow> beatPosition (nd_note nd)) \<and>
   (\<exists>m \<in> set ms. nd_note nd \<in> set (measure_notes m))"
  by (auto simp: collectNotes_def split: option.splits)

lemma collectNotes_measure:
  "map nd_note (collectNotes [m]) = [n \<leftarrow> measure_notes m. 0 \<le> fret n]"
proof -
  have "map nd_note
          (concat (map (\<lambda>n. if 0 \<le> fret n
                          then [\<lparr>nd_note = n,
                                 nd_beatPosition = (case globalBeatPosition n of
                                    Some globalBeat \<Rightarrow> globalBeat | None \<Rightarrow> beatPosition n),
                                 nd_beatDuration = beatDuration n, triggered = False\<rparr>]
                          else []) ns)) =
      [n \<leftarrow> ns. 0 \<le> fret n]" for ns
    by (induction ns) simp_all
  then show ?thesis
    by (simp add: collectNotes_def)
qed

lemma collectNotes_Cons: "collectNotes (m # ms) = collectNotes [m] @ collectNotes ms"
  by (simp add: collectNotes_def)

lemma collectNotes_notes:
  "map nd_note (collectNotes ms) = [n \<leftarrow> concat (map measure_notes ms). 0 \<le> fret n]"
proof (induction ms)
  case Nil
  show ?case by (simp add: collectNotes_def)
next
  case (Cons m ms)
  have "map nd_note (collectNotes (m # ms)) =
      map nd_note (collectNotes [m]) @ map nd_note (collectNotes ms)"
    by (subst collectNotes_Cons) simp
  with Cons show ?case
    by (simp add: collectNotes_measure)
qed

lemma prepareNotes_sorted_stable:
  assumes "tabData s = Some td"
  shows "\<exists>s'. prepareNotes s = Inr s' \<and>
           sorted (map nd_beatPosition (allNotes s')) \<and>
           set (allNotes s') = set (collectNotes (measures td)) \<and>
           length (allNotes s') = length (collectNotes (measures td)) \<and>
           (\<forall>k. [nd \<leftarrow> allNotes s'. nd_beatPosition nd = k] =
                 [nd \<leftarrow> collectNotes (measures td). nd_beatPosition nd = k]) \<and>
           (\<forall>nd \<in> set (allNotes s').
              nd_beatPosition nd =
                (case globalBeatPosition (nd_note nd) of Some g \<Rightarrow> g
                 | None \<Rightarrow> beatPosition (nd_note nd)))"
  using assms
  by (auto simp: prepareNotes_returns sort_key_stable dest: collectNotes_entries)

text \<open>
  Claim C6. \<open>prepareNotes\<close> takes the position of a note without \<open>globalBeatPosition\<close>
  from its \<open>beatPosition\<close> alone: the note at beat 2 of the second measure (measure index 1,
  so beat 6 of the tab) becomes a trigger at beat 2. (The other parts of the claim hold:
  see \<open>prepareNotes_sorted_stable\<close> above.)
\<close>

theorem prepareNotes_drops_measure_offset:
  "lateNote \<in> set (measure_notes (measures twoMeasureTab ! 1)) \<and>
   globalBeatPosition lateNote = None \<and>
   real 1 * 4 + beatPosition lateNote = 6 \<and>
   allNotes (returned (prepareNotes (setTabData twoMeasureTab (newSequencer demoEngine)))) =
     [\<lparr>nd_note = lateNote, nd_beatPosition = 2, nd_beatDuration = 1, triggered = False\<rparr>]"
  by (simp add: prepareNotes_def setTabData_def twoMeasureTab_def newSequencer_def Let_def
      collectNotes_def lateNote_def returned_def)

section \<open>The sequencer: play and the master volume\<close>

lemma resume_returns:
  "audioContext (audioEngine s) \<noteq> None \<Longrightarrow>
   \<exists>s'. resume now s = Inr s' \<and> audioEngine s' = audioEngine s \<and> isPlaying s'"
  by (auto simp: resume_def Let_def startRealtimePlayback_def)

lemma startFreshPlayback_returns:
  "audioContext (audioEngine s) \<noteq> None \<Longrightarrow> tabData s \<noteq> None \<Longrightarrow>
   \<exists>s'. startFreshPlayback now s = Inr s' \<and> audioEngine s' = audioEngine s \<and> isPlaying s'"
  by (auto simp: startFreshPlayback_def prepareNotes_def Let_def startRealtimePlayback_def)

lemma fresh_play:
  assumes "tabData s = Some td" and "audioEngine s = demoEngine" and "\<not> isPaused s"
  shows "play now s =
     Inr (startRealtimePlayback
            (s\<lparr>audioEngine := setMasterVolume now 0.3 demoEngine, isPlaying := True,
                isPaused := False, currentBeat := 0, startTime := now,
                totalPausedDuration := 0,
                totalDuration := real (length (measures td)) * 4 * (60 / tempo s),
                allNotes := sort_key nd_beatPosition (collectNotes (measures td))\<rparr>))"
  using assms
  by (simp add: play_def demoEngine_ensure Let_def startFreshPlayback_def prepareNotes_def
      setMasterVolume_context demoEngine_context)

text \<open>
  Claim C10. With tab data loaded and an engine that is initialised, or that the platform
  lets initialise, \<open>play\<close> returns with playback running and with the master gain set to
  0.3 from the clock reading of the call on, whatever the master gain was scheduled to be
  before: a volume chosen by \<open>setMasterVolume\<close>, 0 included, does not survive the call.
\<close>

theorem play_sets_master_volume:
  assumes "tabData s \<noteq> None"
    and "engineReady (audioEngine s) \<or>
         (\<not> isInitialized (audioEngine s) \<and> window_AudioContext (audioEngine s) \<noteq> None)"
    and "now \<le> tm"
  shows "\<exists>s'. play now s = Inr s' \<and> isPlaying s' \<and> masterLevel (audioEngine s') tm = 0.3"
proof -
  from ensureAudioContext_available [OF assms(2)] obtain e1 where
    e1: "ensureAudioContext (audioEngine s) = Inr e1" "engineReady e1"
    by blast
  let ?s1 = "s\<lparr>audioEngine := setMasterVolume now 0.3 e1\<rparr>"
  have ctx: "audioContext (audioEngine ?s1) \<noteq> None"
    using e1(2) by (simp add: setMasterVolume_context engineReady_def)
  have tab: "tabData ?s1 \<noteq> None"
    using assms(1) by simp
  have lvl: "masterLevel (audioEngine ?s1) tm = 0.3"
    using setMasterVolume_level [OF e1(2) assms(3), of "0.3"] by simp
  have pl: "play now s = (if isPaused ?s1 then resume now ?s1 else startFreshPlayback now ?s1)"
    using assms(1) e1(1) by (auto simp: play_def Let_def)
  show ?thesis
  proof (cases "isPaused ?s1")
    case True
    with pl resume_returns [OF ctx, of now] lvl show ?thesis by auto
  next
    case False
    with pl startFreshPlayback_returns [OF ctx tab, of now] lvl show ?thesis by auto
  qed
qed

theorem play_sets_master_volume_witness:
  "tabData mutedSequencer \<noteq> None \<and> engineReady (audioEngine mutedSequencer) \<and>
   (1::real) \<le> 2 \<and> masterLevel (audioEngine mutedSequencer) 2 = 0 \<and>
   (\<exists>s'. play 1 mutedSequencer = Inr s' \<and> isPlaying s' \<and>
      masterLevel (audioEngine s') 2 = 3 / 10)"
proof -
  have e: "audioEngine mutedSequencer = setMasterVolume 0 0 demoEngine"
    "tabData mutedSequencer \<noteq> None"
    by (simp_all add: mutedSequencer_def setTabData_def oneMeasureTab_def newSequencer_def)
  have r: "engineReady (audioEngine mutedSequencer)"
    by (simp add: e engineReady_def setMasterVolume_def demoEngine_eq Let_def)
  have m: "masterLevel (audioEngine mutedSequencer) 2 = 0"
    using setMasterVolume_level [OF demoEngine_ready, of 0 2 0] by (simp add: e)
  have le: "(1::real) \<le> 2" by simp
  from play_sets_master_volume [OF e(2) disjI1 le, OF r] e r m show ?thesis
    by simp
qed

section \<open>The sequencer: the timer callback\<close>

lemma tick_eq:
  assumes "isPlaying s" and "audioContext (audioEngine s) \<noteq> None" and "tabData s \<noteq> None"
  shows "tick now s =
           Inr (runCalls now (snd (tickFired now s))
                  (if isLooping s \<and> beatAt now s \<ge> loopEndMeasure s * 4
                   then returned (loop now (tickReport now s))
                   else if \<not> isLooping s \<and> js_ge (tickProgress now s) 1
                   then complete (stop now (tickReport now s))
                   else tickReport now s))"
proof -
  from assms(2) obtain c where c: "audioContext (audioEngine s) = Some c" by blast
  from assms(3) obtain td where td: "tabData s = Some td" by blast
  show ?thesis
    by (simp add: tick_def Let_def assms(1) c td tickReport_def tickFired_def tickProgress_def
        beatAt_def reportProgress_def loop_def returned_def)
qed

lemma tick_eq_no_tab:
  assumes "isPlaying s" and "audioContext (audioEngine s) \<noteq> None" and "tabData s = None"
  shows "tick now s = Inl (TypeError, runCalls now (snd (tickFired now s)) (tickReport now s))"
proof -
  from assms(2) obtain c where c: "audioContext (audioEngine s) = Some c" by blast
  show ?thesis
    by (simp add: tick_def Let_def assms(1,3) c tickReport_def tickFired_def tickProgress_def
        beatAt_def reportProgress_def)
qed


lemma triggerNotes_calls:
  "snd (triggerNotes cb bd nds) =
     map (\<lambda>nd. (nd_note nd, max 0 ((nd_beatPosition nd - cb) * bd), nd_beatDuration nd * bd))
       (filter (due cb) nds)"
  by (induction nds) (auto simp: due_def Let_def split: prod.splits)


lemma tickFired_calls:
  "snd (tickFired now s) =
     map (\<lambda>nd. (nd_note nd, max 0 ((nd_beatPosition nd - beatAt now s) * (60 / tempo s)),
                nd_beatDuration nd * (60 / tempo s)))
       (filter (due (beatAt now s)) (allNotes s))"
  by (simp add: tickFired_def triggerNotes_calls)




lemma tickReport_engine: "audioEngine (tickReport now s) = audioEngine s"
  by (simp add: tickReport_def reportProgress_def)

section \<open>The sequencer: pause and resume\<close>

lemma beatFields_runCalls: "beatFields (runCalls now calls s) = beatFields s"
  by (simp add: beatFields_def runCalls_def)

lemma beatFields_complete:
  "beatFields s' = beatFields s \<Longrightarrow> beatFields (complete s') = beatFields (complete s)"
  by (simp add: beatFields_def complete_def)

lemma beatFields_stop:
  "beatFields s' = beatFields s \<Longrightarrow> beatFields (stop now' s') = beatFields (stop now s)"
  by (simp add: beatFields_def stop_def Let_def reportProgress_def clearPlaybackTimer_def
      split: option.splits)

lemma beatFields_loop:
  "beatFields s' = beatFields s \<Longrightarrow> audioContext (audioEngine s) \<noteq> None \<Longrightarrow>
   audioContext (audioEngine s') \<noteq> None \<Longrightarrow>
   beatFields (returned (loop now' s')) = beatFields (returned (loop now s))"
  by (auto simp: beatFields_def loop_def Let_def returned_def)

lemma beatFields_tickReport:
  assumes "beatFields s' = beatFields s"
    and "now' - startTime s' - totalPausedDuration s' = now - startTime s - totalPausedDuration s"
  shows "beatFields (tickReport now' s') = beatFields (tickReport now s) \<and>
         beatAt now' s' = beatAt now s \<and> tickProgress now' s' = tickProgress now s \<and>
         tickFired now' s' = tickFired now s"
  using assms
  by (simp add: beatFields_def tickReport_def tickFired_def tickProgress_def beatAt_def
      reportProgress_def)

lemma beatFields_tick:
  assumes bf: "beatFields s' = beatFields s"
    and el: "now' - startTime s' - totalPausedDuration s' = now - startTime s - totalPausedDuration s"
    and c: "audioContext (audioEngine s) \<noteq> None" and c': "audioContext (audioEngine s') \<noteq> None"
  shows "beatFields (returned (tick now' s')) = beatFields (returned (tick now s))"
proof (cases "isPlaying s")
  case False
  with bf have "\<not> isPlaying s'" by (simp add: beatFields_def)
  with False bf show ?thesis by (simp add: tick_def returned_def)
next
  case True
  with bf have p': "isPlaying s'" by (simp add: beatFields_def)
  from bf have eqs: "tabData s' = tabData s" "isLooping s' = isLooping s"
    "loopEndMeasure s' = loopEndMeasure s"
    by (simp_all add: beatFields_def)
  from beatFields_tickReport [OF bf el]
  have r: "beatFields (tickReport now' s') = beatFields (tickReport now s)"
    and b: "beatAt now' s' = beatAt now s" and pr: "tickProgress now' s' = tickProgress now s"
    by simp_all
  have cr: "audioContext (audioEngine (tickReport now s)) \<noteq> None"
    "audioContext (audioEngine (tickReport now' s')) \<noteq> None"
    using c c' by (simp_all add: tickReport_engine)
  show ?thesis
  proof (cases "tabData s")
    case None
    then have "tabData s' = None" using eqs by simp
    from tick_eq_no_tab [OF True c None, of now] tick_eq_no_tab [OF p' c' this, of now']
    show ?thesis
      by (simp only: returned_def sum.case snd_conv beatFields_runCalls r)
  next
    case (Some td)
    then have t: "tabData s \<noteq> None" and t': "tabData s' \<noteq> None" using eqs by simp_all
    define A where "A = (isLooping s \<and> beatAt now s \<ge> loopEndMeasure s * 4)"
    define B where "B = (\<not> isLooping s \<and> js_ge (tickProgress now s) 1)"
    have "tick now s =
        Inr (runCalls now (snd (tickFired now s))
               (if A then returned (loop now (tickReport now s))
                else if B then complete (stop now (tickReport now s))
                else tickReport now s))"
      unfolding A_def B_def by (rule tick_eq [OF True c t])
    then have 1: "beatFields (returned (tick now s)) =
        beatFields (if A then returned (loop now (tickReport now s))
                    else if B then complete (stop now (tickReport now s))
                    else tickReport now s)"
      by (simp only: returned_def sum.case beatFields_runCalls)
    have "tick now' s' =
        Inr (runCalls now' (snd (tickFired now' s'))
               (if A then returned (loop now' (tickReport now' s'))
                else if B then complete (stop now' (tickReport now' s'))
                else tickReport now' s'))"
      unfolding A_def B_def eqs [symmetric] b [symmetric] pr [symmetric]
      by (rule tick_eq [OF p' c' t'])
    then have 2: "beatFields (returned (tick now' s')) =
        beatFields (if A then returned (loop now' (tickReport now' s'))
                    else if B then complete (stop now' (tickReport now' s'))
                    else tickReport now' s')"
      by (simp only: returned_def sum.case beatFields_runCalls)
    have 3: "beatFields (returned (loop now' (tickReport now' s'))) =
        beatFields (returned (loop now (tickReport now s)))"
      by (rule beatFields_loop [OF r cr])
    have 4: "beatFields (complete (stop now' (tickReport now' s'))) =
        beatFields (complete (stop now (tickReport now s)))"
      by (rule beatFields_complete [OF beatFields_stop [OF r]])
    show ?thesis
      unfolding 1 2 using 3 4 r by (cases A; cases B) simp_all
  qed
qed

lemma pause_resume_state:
  assumes "audioContext (audioEngine s) \<noteq> None"
  shows "\<exists>s1 s2. pause tp s = Inr s1 \<and> resume tr s1 = Inr s2 \<and>
           \<not> isPlaying s1 \<and> isPaused s1 \<and> pausedTime s1 = tp \<and>
           isPlaying s2 \<and> \<not> isPaused s2 \<and>
           audioContext (audioEngine s2) \<noteq> None \<and>
           totalPausedDuration s2 = totalPausedDuration s + (tr - tp) \<and>
           startTime s2 = startTime s \<and> tempo s2 = tempo s \<and>
           totalDuration s2 = totalDuration s \<and>
           currentBeat s2 = currentBeat s \<and> allNotes s2 = allNotes s \<and>
           tabData s2 = tabData s \<and> isLooping s2 = isLooping s \<and>
           loopStartMeasure s2 = loopStartMeasure s \<and> loopEndMeasure s2 = loopEndMeasure s \<and>
           onProgressCallback s2 = onProgressCallback s \<and>
           onCompleteCallback s2 = onCompleteCallback s \<and>
           progressReports s2 = progressReports s \<and> completions s2 = completions s"
  using assms
  by (auto simp: pause_def resume_def Let_def clearPlaybackTimer_def startRealtimePlayback_def
      stopAllNotes_context split: option.splits)

text \<open>
  Claim C3. Pausing a playing sequencer at clock reading \<open>tp\<close> and resuming it at any
  clock reading \<open>tr\<close> adds \<open>tr - tp\<close> to the total paused duration and changes neither
  \<open>currentBeat\<close> nor the trigger list with its fired flags. The beat that a timer callback
  computes \<open>d\<close> seconds after the resume is the beat it would have computed \<open>d\<close> seconds
  after the pause instant had there been no pause (so at the instant of resume it is the
  beat of the pause instant), and such a callback leaves the same beat, trigger list,
  progress reports and playing flag in both cases.
\<close>

theorem pause_resume_continuity:
  assumes "audioContext (audioEngine s) \<noteq> None" and "isPlaying s"
  shows "\<exists>s1 s2. pause tp s = Inr s1 \<and> resume tr s1 = Inr s2 \<and>
           \<not> isPlaying s1 \<and> isPlaying s2 \<and>
           totalPausedDuration s2 = totalPausedDuration s + (tr - tp) \<and>
           currentBeat s2 = currentBeat s \<and> allNotes s2 = allNotes s \<and>
           (\<forall>d. beatAt (tr + d) s2 = beatAt (tp + d) s) \<and>
           (\<forall>d. beatFields (returned (tick (tr + d) s2)) =
                 beatFields (returned (tick (tp + d) s)))"
proof -
  from pause_resume_state [OF assms(1), of tp tr] obtain s1 s2 where
    st: "pause tp s = Inr s1" "resume tr s1 = Inr s2"
      "\<not> isPlaying s1" "isPlaying s2" "audioContext (audioEngine s2) \<noteq> None"
      "totalPausedDuration s2 = totalPausedDuration s + (tr - tp)"
      "startTime s2 = startTime s" "tempo s2 = tempo s" "totalDuration s2 = totalDuration s"
      "currentBeat s2 = currentBeat s" "allNotes s2 = allNotes s" "tabData s2 = tabData s"
      "isLooping s2 = isLooping s" "loopStartMeasure s2 = loopStartMeasure s"
      "loopEndMeasure s2 = loopEndMeasure s" "onProgressCallback s2 = onProgressCallback s"
      "onCompleteCallback s2 = onCompleteCallback s" "progressReports s2 = progressReports s"
      "completions s2 = completions s"
    by blast
  have bf: "beatFields s2 = beatFields s"
    using st assms(2) by (simp add: beatFields_def)
  have beat: "beatAt (tr + d) s2 = beatAt (tp + d) s" for d
    by (simp add: beatAt_def st)
  have el: "tr + d - startTime s2 - totalPausedDuration s2 =
      tp + d - startTime s - totalPausedDuration s" for d
    by (simp add: st)
  have view: "beatFields (returned (tick (tr + d) s2)) = beatFields (returned (tick (tp + d) s))" for d
    by (rule beatFields_tick [OF bf el assms(1) st(5)])
  from st(1-4,6,10,11) beat view show ?thesis
    by blast
qed

lemma playingSequencer_facts:
  "isPlaying playingSequencer \<and> audioContext (audioEngine playingSequencer) = Some Running \<and>
   startTime playingSequencer = 0 \<and> totalPausedDuration playingSequencer = 0 \<and>
   tempo playingSequencer = 120 \<and> totalDuration playingSequencer = 2 \<and>
   allNotes playingSequencer = [] \<and> tabData playingSequencer = Some oneMeasureTab \<and>
   \<not> isLooping playingSequencer \<and> \<not> onProgressCallback playingSequencer"
  by (simp add: playingSequencer_def play_def setTabData_def oneMeasureTab_def newSequencer_def
      demoEngine_eq ensureAudioContext_def newEngine_def setMasterVolume_def Let_def
      startFreshPlayback_def prepareNotes_def startRealtimePlayback_def returned_def
      collectNotes_def)

theorem pause_resume_continuity_witness:
  "audioContext (audioEngine playingSequencer) \<noteq> None \<and> isPlaying playingSequencer \<and>
   beatAt 1 playingSequencer = 2 \<and>
   (\<exists>s1 s2. pause 1 playingSequencer = Inr s1 \<and> resume 11 s1 = Inr s2 \<and>
      totalPausedDuration s2 = 10 \<and> beatAt 11 s2 = 2)"
proof -
  have h: "audioContext (audioEngine playingSequencer) \<noteq> None" "isPlaying playingSequencer"
    by (simp_all add: playingSequencer_facts)
  have b: "beatAt 1 playingSequencer = 2"
    by (simp add: beatAt_def playingSequencer_facts)
  from pause_resume_continuity [OF h, of 1 11] obtain s1 s2 where
    "pause 1 playingSequencer = Inr s1" "resume 11 s1 = Inr s2"
    "totalPausedDuration s2 = totalPausedDuration playingSequencer + (11 - 1)"
    "\<forall>d. beatAt (11 + d) s2 = beatAt (1 + d) playingSequencer"
    by blast
  then have "pause 1 playingSequencer = Inr s1 \<and> resume 11 s1 = Inr s2 \<and>
      totalPausedDuration s2 = 10 \<and> beatAt 11 s2 = 2"
    using b spec [of "\<lambda>d. beatAt (11 + d) s2 = beatAt (1 + d) playingSequencer" 0]
    by (simp add: playingSequencer_facts)
  with h b show ?thesis by blast
qed

section \<open>The sequencer: the lookahead window\<close>

lemma earlySequencer_facts:
  "isPlaying earlySequencer \<and> audioContext (audioEngine earlySequencer) = Some Running \<and>
   startTime earlySequencer = 0 \<and> totalPausedDuration earlySequencer = 0 \<and>
   tempo earlySequencer = 120 \<and> totalDuration earlySequencer = 2 \<and>
   allNotes earlySequencer =
     [\<lparr>nd_note = earlyNote, nd_beatPosition = 0.08, nd_beatDuration = 1, triggered = False\<rparr>] \<and>
   tabData earlySequencer = Some earlyTab \<and>
   \<not> isLooping earlySequencer \<and> \<not> onProgressCallback earlySequencer \<and>
   voiceCount (audioEngine earlySequencer) = 0"
proof -
  let ?s0 = "setTabData earlyTab (newSequencer demoEngine)"
  have s0: "tabData ?s0 = Some earlyTab" "audioEngine ?s0 = demoEngine" "\<not> isPaused ?s0"
    "tempo ?s0 = 120" "\<not> isLooping ?s0" "\<not> onProgressCallback ?s0"
    by (simp_all add: setTabData_def earlyTab_def newSequencer_def)
  show ?thesis
    unfolding earlySequencer_def fresh_play [OF s0(1-3)]
    using s0
    by (simp add: returned_def startRealtimePlayback_def setMasterVolume_context
        setMasterVolume_def demoEngine_eq newEngine_def Let_def earlyTab_def collectNotes_def
        earlyNote_def)
qed

text \<open>
  Claim C2. The window of the timer callback is 0.05 beats on either side of
  \<open>currentBeat\<close>, not 50 ms converted to beats: at tempo 120 and beat 0 the unfired trigger
  at beat 0.08 is 40 ms ahead, inside 50 ms, and the callback neither dispatches it nor
  marks it fired. (\<open>triggerNotes_flags\<close> and \<open>triggerNotes_calls\<close> above give the window, the
  start offset and the flag as the code has them.)
\<close>

theorem lookahead_measured_in_beats:
  "tempo earlySequencer = 120 \<and> beatAt 0 earlySequencer = 0 \<and>
   map (\<lambda>nd. (nd_beatPosition nd, triggered nd)) (allNotes earlySequencer) = [(8 / 100, False)] \<and>
   \<bar>8 / 100 - beatAt 0 earlySequencer\<bar> * (60 / tempo earlySequencer) \<le> 5 / 100 \<and>
   snd (tickFired 0 earlySequencer) = [] \<and>
   map triggered (allNotes (returned (tick 0 earlySequencer))) = [False] \<and>
   voiceCount (audioEngine (returned (tick 0 earlySequencer))) = 0"
proof -
  note f = earlySequencer_facts
  have p: "isPlaying earlySequencer" "audioContext (audioEngine earlySequencer) \<noteq> None"
    "tabData earlySequencer \<noteq> None"
    by (simp_all add: f)
  have b: "beatAt 0 earlySequencer = 0"
    by (simp add: beatAt_def f)
  have fired: "tickFired 0 earlySequencer = (allNotes earlySequencer, [])"
    by (simp add: tickFired_def b f lookahead_def)
  have pr: "tickProgress 0 earlySequencer = Fin 0"
    by (simp add: tickProgress_def b f js_div_def js_min_def)
  have "returned (tick 0 earlySequencer) =
      runCalls 0 [] (tickReport 0 earlySequencer)"
    by (simp add: tick_eq [OF p] returned_def fired b f pr js_ge_def)
  then show ?thesis
    by (simp add: b fired f runCalls_def tickReport_def reportProgress_def)
qed

section \<open>The sequencer: progress\<close>

lemma tickProgress_unchanged_tempo:
  assumes "tempo s \<noteq> 0" and "totalDuration s = totalBeats * (60 / tempo s)"
  shows "tickProgress now s = js_min (js_div (beatAt now s) totalBeats) 1"
  using assms by (simp add: tickProgress_def)

lemma slowedSequencer_facts:
  "isPlaying slowedSequencer \<and> audioContext (audioEngine slowedSequencer) = Some Running \<and>
   startTime slowedSequencer = 0 \<and> totalPausedDuration slowedSequencer = 0 \<and>
   tempo slowedSequencer = 60 \<and> totalDuration slowedSequencer = 2 \<and>
   allNotes slowedSequencer = [] \<and> tabData slowedSequencer = Some oneMeasureTab \<and>
   \<not> isLooping slowedSequencer \<and> onProgressCallback slowedSequencer \<and>
   \<not> onCompleteCallback slowedSequencer \<and>
   progressReports slowedSequencer = [] \<and> completions slowedSequencer = 0"
proof -
  let ?s0 = "setProgressCallback (setTabData oneMeasureTab (newSequencer demoEngine))"
  have s0: "tabData ?s0 = Some oneMeasureTab" "audioEngine ?s0 = demoEngine" "\<not> isPaused ?s0"
    "tempo ?s0 = 120" "\<not> isLooping ?s0" "onProgressCallback ?s0" "\<not> onCompleteCallback ?s0"
    "progressReports ?s0 = []" "completions ?s0 = 0"
    by (simp_all add: setTabData_def oneMeasureTab_def newSequencer_def setProgressCallback_def)
  show ?thesis
    unfolding slowedSequencer_def fresh_play [OF s0(1-3)]
    using s0
    by (simp add: returned_def startRealtimePlayback_def setMasterVolume_context
        setMasterVolume_def demoEngine_eq newEngine_def Let_def oneMeasureTab_def
        collectNotes_def setTempo_def)
qed

text \<open>
  Claim C4. After a tempo change the reported progress is no longer
  \<open>min(currentBeat / totalBeats, 1)\<close>: the callback divides by the total duration that
  \<open>prepareNotes\<close> computed at the old tempo. For the one-measure tab (4 beats) started at
  tempo 120 and set to tempo 60, the callback at clock reading 2 computes beat 2, reports
  progress 1 instead of 1/2, and stops the playback. (With the tempo unchanged the
  formula holds: \<open>tickProgress_unchanged_tempo\<close>.)
\<close>

theorem progress_after_setTempo:
  "tabData slowedSequencer = Some oneMeasureTab \<and>
   real (length (measures oneMeasureTab)) * 4 = 4 \<and>
   beatAt 2 slowedSequencer = 2 \<and>
   js_min (js_div (beatAt 2 slowedSequencer) (real (length (measures oneMeasureTab)) * 4)) 1 =
     Fin (1 / 2) \<and>
   tickProgress 2 slowedSequencer = Fin 1 \<and>
   progressReports (returned (tick 2 slowedSequencer)) = [Fin 1, Fin 0] \<and>
   \<not> isPlaying (returned (tick 2 slowedSequencer))"
proof -
  note f = slowedSequencer_facts
  have p: "isPlaying slowedSequencer" "audioContext (audioEngine slowedSequencer) \<noteq> None"
    "tabData slowedSequencer \<noteq> None"
    by (simp_all add: f)
  have b: "beatAt 2 slowedSequencer = 2"
    by (simp add: beatAt_def f)
  have fired: "tickFired 2 slowedSequencer = ([], [])"
    by (simp add: tickFired_def f)
  have pr: "tickProgress 2 slowedSequencer = Fin 1"
    by (simp add: tickProgress_def b f js_div_def js_min_def)
  have claimed: "js_min (js_div (beatAt 2 slowedSequencer)
      (real (length (measures oneMeasureTab)) * 4)) 1 = Fin (1 / 2)"
    by (simp add: b oneMeasureTab_def js_div_def js_min_def)
  have "returned (tick 2 slowedSequencer) =
      runCalls 2 [] (complete (stop 2 (tickReport 2 slowedSequencer)))"
    by (simp add: tick_eq [OF p] returned_def fired f pr js_ge_def)
  then have "progressReports (returned (tick 2 slowedSequencer)) = [Fin 1, Fin 0] \<and>
      \<not> isPlaying (returned (tick 2 slowedSequencer))"
    by (simp add: runCalls_def complete_def stop_def Let_def tickReport_def reportProgress_def
        clearPlaybackTimer_def pr f split: option.splits)
  with b pr claimed f show ?thesis
    by (simp add: oneMeasureTab_def)
qed

section \<open>The sequencer: looping\<close>

lemma ticks_Cons: "ticks (now # rest) s = ticks rest (returned (tick now s))"
  by simp














































end
